theory Spec2Isabelle
  imports Complex_Main "HOL-Library.Sublist"
begin

section \<open>Python values and the library functions the code calls\<close>

text \<open>
  The repository is two Python files: \<^verbatim>\<open>video_processor.py\<close> (class
  \<^verbatim>\<open>VideoProcessor\<close>) and \<^verbatim>\<open>app.py\<close> (the Flask routes). The
  definitions below follow the source line by line. Exceptions are values of
  \<open>py_exn\<close>, and a computation that may raise returns \<open>py_exn + 'a\<close> with
  \<open>Inl\<close> for the exception. Logging calls are not modelled: no claim observes them.
\<close>

datatype py_exn =
    CalledProcessError int
  | FileNotFoundError string
  | OSError string
  | IsADirectoryError string
  | JSONDecodeError
  | TypeError
  | ValueError
  | KeyError
  | AttributeError
  | OverflowError
  | UnicodeDecodeError

text \<open>
  A Python float: a finite value, an infinity or a NaN. The finite values are
  kept as the real number they denote.
\<close>

datatype pyfloat = Fin real | PosInf | NegInf | NaN

fun float_pos :: "pyfloat \<Rightarrow> bool" where
  "float_pos (Fin r) = (0 < r)"
| "float_pos PosInf = True"
| "float_pos NegInf = False"
| "float_pos NaN = False"

text \<open>
  What \<^verbatim>\<open>json.loads\<close> returns. A dict is an association list read with
  \<open>map_of\<close>; a character of a \<open>string\<close> stands for one code point.
\<close>

datatype json =
    JNull
  | JBool bool
  | JInt int
  | JFloat pyfloat
  | JStr string
  | JArr "json list"
  | JObj "(string \<times> json) list"

text \<open>
  Functions of the Python library whose bodies are not part of the repository
  are parameters: \<^verbatim>\<open>json.loads\<close> (\<open>None\<close> is JSONDecodeError),
  \<^verbatim>\<open>float\<close> and \<^verbatim>\<open>int\<close> on a \<^verbatim>\<open>str\<close> (\<open>None\<close> is ValueError),
  \<^verbatim>\<open>float\<close> on an integer beyond \<open>2^53\<close> (where the conversion rounds or
  overflows), \<^verbatim>\<open>str\<close> on a float and on an exception.
\<close>

record pylib =
  json_loads :: "string \<Rightarrow> json option"
  float_str :: "string \<Rightarrow> pyfloat option"
  float_big :: "int \<Rightarrow> py_exn + pyfloat"
  int_str :: "string \<Rightarrow> int option"
  str_float :: "pyfloat \<Rightarrow> string"
  str_exn :: "py_exn \<Rightarrow> string"

fun bindE :: "'e + 'a \<Rightarrow> ('a \<Rightarrow> 'e + 'b) \<Rightarrow> 'e + 'b" where
  "bindE (Inl e) f = Inl e"
| "bindE (Inr x) f = f x"

definition dict_keys :: "(string \<times> json) list \<Rightarrow> string list" where
  "dict_keys kvs = remdups (map fst kvs)"

text \<open>\<^verbatim>\<open>k in v\<close> for a string \<open>k\<close>.\<close>

fun py_contains :: "string \<Rightarrow> json \<Rightarrow> py_exn + bool" where
  "py_contains k (JObj kvs) = Inr (map_of kvs k \<noteq> None)"
| "py_contains k (JArr xs) = Inr (JStr k \<in> set xs)"
| "py_contains k (JStr s) = Inr (sublist k s)"
| "py_contains k JNull = Inl TypeError"
| "py_contains k (JBool b) = Inl TypeError"
| "py_contains k (JInt i) = Inl TypeError"
| "py_contains k (JFloat f) = Inl TypeError"

text \<open>\<^verbatim>\<open>v[k]\<close> for a string \<open>k\<close>: only a dict accepts a string subscript.\<close>

fun py_getitem :: "json \<Rightarrow> string \<Rightarrow> py_exn + json" where
  "py_getitem (JObj kvs) k = (case map_of kvs k of None \<Rightarrow> Inl KeyError | Some x \<Rightarrow> Inr x)"
| "py_getitem JNull k = Inl TypeError"
| "py_getitem (JBool b) k = Inl TypeError"
| "py_getitem (JInt i) k = Inl TypeError"
| "py_getitem (JFloat f) k = Inl TypeError"
| "py_getitem (JStr s) k = Inl TypeError"
| "py_getitem (JArr xs) k = Inl TypeError"

text \<open>\<^verbatim>\<open>len(v)\<close>.\<close>

fun py_len :: "json \<Rightarrow> py_exn + nat" where
  "py_len (JObj kvs) = Inr (length (dict_keys kvs))"
| "py_len (JArr xs) = Inr (length xs)"
| "py_len (JStr s) = Inr (length s)"
| "py_len JNull = Inl TypeError"
| "py_len (JBool b) = Inl TypeError"
| "py_len (JInt i) = Inl TypeError"
| "py_len (JFloat f) = Inl TypeError"

text \<open>
  The elements \<^verbatim>\<open>for x in v\<close> visits: the items of a list, the keys of a dict,
  the characters of a string.
\<close>

fun py_iter :: "json \<Rightarrow> py_exn + json list" where
  "py_iter (JArr xs) = Inr xs"
| "py_iter (JObj kvs) = Inr (map JStr (dict_keys kvs))"
| "py_iter (JStr s) = Inr (map (\<lambda>c. JStr [c]) s)"
| "py_iter JNull = Inl TypeError"
| "py_iter (JBool b) = Inl TypeError"
| "py_iter (JInt i) = Inl TypeError"
| "py_iter (JFloat f) = Inl TypeError"

text \<open>\<^verbatim>\<open>v.get(k, d)\<close>: only a dict has the method.\<close>

fun py_get :: "json \<Rightarrow> string \<Rightarrow> json \<Rightarrow> py_exn + json" where
  "py_get (JObj kvs) k d = Inr (case map_of kvs k of None \<Rightarrow> d | Some x \<Rightarrow> x)"
| "py_get JNull k d = Inl AttributeError"
| "py_get (JBool b) k d = Inl AttributeError"
| "py_get (JInt i) k d = Inl AttributeError"
| "py_get (JFloat f) k d = Inl AttributeError"
| "py_get (JStr s) k d = Inl AttributeError"
| "py_get (JArr xs) k d = Inl AttributeError"

text \<open>\<^verbatim>\<open>float(v)\<close>.\<close>

fun py_float :: "pylib \<Rightarrow> json \<Rightarrow> py_exn + pyfloat" where
  "py_float lib (JFloat f) = Inr f"
| "py_float lib (JInt i) =
     (if \<bar>i\<bar> \<le> 2 ^ 53 then Inr (Fin (of_int i)) else float_big lib i)"
| "py_float lib (JBool b) = Inr (Fin (if b then 1 else 0))"
| "py_float lib (JStr s) =
     (case float_str lib s of None \<Rightarrow> Inl ValueError | Some f \<Rightarrow> Inr f)"
| "py_float lib JNull = Inl TypeError"
| "py_float lib (JArr xs) = Inl TypeError"
| "py_float lib (JObj kvs) = Inl TypeError"

text \<open>\<^verbatim>\<open>int(v)\<close>: a float is truncated towards zero.\<close>

fun py_int :: "pylib \<Rightarrow> json \<Rightarrow> py_exn + int" where
  "py_int lib (JInt i) = Inr i"
| "py_int lib (JBool b) = Inr (if b then 1 else 0)"
| "py_int lib (JFloat (Fin r)) = Inr (if 0 \<le> r then \<lfloor>r\<rfloor> else \<lceil>r\<rceil>)"
| "py_int lib (JFloat NaN) = Inl ValueError"
| "py_int lib (JFloat PosInf) = Inl OverflowError"
| "py_int lib (JFloat NegInf) = Inl OverflowError"
| "py_int lib (JStr s) =
     (case int_str lib s of None \<Rightarrow> Inl ValueError | Some i \<Rightarrow> Inr i)"
| "py_int lib JNull = Inl TypeError"
| "py_int lib (JArr xs) = Inl TypeError"
| "py_int lib (JObj kvs) = Inl TypeError"

text \<open>\<^verbatim>\<open>str(n)\<close> for an integer: its decimal digits, with a minus sign when negative.\<close>

definition digit_char :: "nat \<Rightarrow> char" where
  "digit_char d =
     (if d = 0 then CHR ''0'' else if d = 1 then CHR ''1'' else if d = 2 then CHR ''2''
      else if d = 3 then CHR ''3'' else if d = 4 then CHR ''4'' else if d = 5 then CHR ''5''
      else if d = 6 then CHR ''6'' else if d = 7 then CHR ''7'' else if d = 8 then CHR ''8''
      else CHR ''9'')"

fun digits :: "nat \<Rightarrow> string" where
  "digits n =
     (if n < 10 then [digit_char n] else digits (n div 10) @ [digit_char (n mod 10)])"

declare digits.simps [simp del]

definition str_int :: "int \<Rightarrow> string" where
  "str_int i = (if i < 0 then CHR ''-'' # digits (nat (- i)) else digits (nat i))"

section \<open>The file system and the external tools\<close>

text \<open>
  \<^verbatim>\<open>create_video\<close> reads the file system through \<^verbatim>\<open>os.path.exists\<close> and
  \<^verbatim>\<open>os.path.getsize\<close> only: a file system maps each existing path to its size.
\<close>

type_synonym fs = "string \<Rightarrow> nat option"

definition os_path_exists :: "fs \<Rightarrow> string \<Rightarrow> bool" where
  "os_path_exists f p = (f p \<noteq> None)"

definition os_path_getsize :: "fs \<Rightarrow> string \<Rightarrow> py_exn + nat" where
  "os_path_getsize f p = (case f p of None \<Rightarrow> Inl (FileNotFoundError p) | Some n \<Rightarrow> Inr n)"

record proc =
  returncode :: int
  stdout :: string
  stderr :: string

text \<open>
  How \<^verbatim>\<open>subprocess.run(cmd, capture_output=True, text=True)\<close> ends for the
  encoding command: the process cannot be started and the call raises; the
  process runs, leaves a file system behind and the call returns the
  completed process; or the process runs, exits with a code and leaves a
  file system behind, and the call then raises because the captured output
  is not decodable text.
\<close>

datatype run_outcome =
    NotStarted py_exn
  | Completed proc fs
  | Undecodable py_exn int fs

text \<open>
  The world outside the process. \<open>run_query\<close> answers the two read-only
  invocations (\<^verbatim>\<open>ffmpeg -version\<close> and \<^verbatim>\<open>ffprobe\<close>): they read the file system
  and leave it as it is. \<open>run_transcode\<close> is the encoding run of \<^verbatim>\<open>ffmpeg\<close>,
  which may change the file system in any way. \<open>makedirs\<close> is
  \<^verbatim>\<open>os.makedirs(_, exist_ok=True)\<close>. Each of them may raise.
\<close>

record env =
  run_query :: "string list \<Rightarrow> fs \<Rightarrow> py_exn + proc"
  run_transcode :: "string list \<Rightarrow> fs \<Rightarrow> run_outcome"
  makedirs :: "string \<Rightarrow> fs \<Rightarrow> py_exn + fs"

text \<open>
  What a call did, in order: each process invocation with the exit code of
  the process (\<open>None\<close> when the invocation raised and no exit code is known)
  and each directory creation.
\<close>

datatype event = Run "string list" "int option" | Makedirs string

record world =
  files :: fs
  events :: "event list"

definition exit_code :: "py_exn + proc \<Rightarrow> int option" where
  "exit_code r = (case r of Inl e \<Rightarrow> None | Inr p \<Rightarrow> Some (returncode p))"

text \<open>\<^verbatim>\<open>subprocess.run(cmd, capture_output=True, check=True)\<close> on a read-only command.\<close>

definition subprocess_run_check :: "env \<Rightarrow> string list \<Rightarrow> world \<Rightarrow> (py_exn + proc) \<times> world" where
  "subprocess_run_check ev cmd w =
     (let r = run_query ev cmd (files w);
          w' = w\<lparr>events := events w @ [Run cmd (exit_code r)]\<rparr>
      in case r of
           Inl e \<Rightarrow> (Inl e, w')
         | Inr p \<Rightarrow>
             if returncode p \<noteq> 0 then (Inl (CalledProcessError (returncode p)), w')
             else (Inr p, w'))"

text \<open>\<^verbatim>\<open>subprocess.run(cmd, capture_output=True, text=True)\<close> on the encoding command.\<close>

definition subprocess_run :: "env \<Rightarrow> string list \<Rightarrow> world \<Rightarrow> (py_exn + proc) \<times> world" where
  "subprocess_run ev cmd w =
     (case run_transcode ev cmd (files w) of
        NotStarted e \<Rightarrow> (Inl e, w\<lparr>events := events w @ [Run cmd None]\<rparr>)
      | Completed p f' \<Rightarrow>
          (Inr p, \<lparr>files = f', events = events w @ [Run cmd (Some (returncode p))]\<rparr>)
      | Undecodable e rc f' \<Rightarrow>
          (Inl e, \<lparr>files = f', events = events w @ [Run cmd (Some rc)]\<rparr>))"

definition os_makedirs :: "env \<Rightarrow> string \<Rightarrow> world \<Rightarrow> (py_exn + unit) \<times> world" where
  "os_makedirs ev d w =
     (case makedirs ev d (files w) of
        Inl e \<Rightarrow> (Inl e, w\<lparr>events := events w @ [Makedirs d]\<rparr>)
      | Inr f' \<Rightarrow> (Inr (), \<lparr>files = f', events = events w @ [Makedirs d]\<rparr>))"

text \<open>\<^verbatim>\<open>os.path.dirname\<close> (posixpath): the part before the last slash, without its trailing slashes unless it is slashes only.\<close>

fun rstrip_slash :: "string \<Rightarrow> string" where
  "rstrip_slash s = rev (dropWhile (\<lambda>c. c = CHR ''/'') (rev s))"

definition os_path_dirname :: "string \<Rightarrow> string" where
  "os_path_dirname p =
     (let head = rev (dropWhile (\<lambda>c. c \<noteq> CHR ''/'') (rev p))
      in if head \<noteq> [] \<and> head \<noteq> replicate (length head) (CHR ''/'') then rstrip_slash head
         else head)"

section \<open>VideoProcessor\<close>

subsection \<open>check_ffmpeg (lines 13-20)\<close>

text \<open>
  Only CalledProcessError and FileNotFoundError are caught; any other exception
  of the invocation leaves the method.
\<close>

definition check_ffmpeg :: "env \<Rightarrow> world \<Rightarrow> (py_exn + bool) \<times> world" where
  "check_ffmpeg ev w =
     (case subprocess_run_check ev [''ffmpeg'', ''-version''] w of
        (Inr p, w') \<Rightarrow> (Inr True, w')
      | (Inl (CalledProcessError rc), w') \<Rightarrow> (Inr False, w')
      | (Inl (FileNotFoundError m), w') \<Rightarrow> (Inr False, w')
      | (Inl e, w') \<Rightarrow> (Inl e, w'))"

subsection \<open>get_audio_duration (lines 22-54)\<close>

definition ffprobe_audio_cmd :: "string \<Rightarrow> string list" where
  "ffprobe_audio_cmd audio_path =
     [''ffprobe'', ''-v'', ''quiet'', ''-print_format'', ''json'',
      ''-show_format'', ''-show_streams'', audio_path]"

text \<open>
  One round of the loop of lines 38-41: \<open>Inr (Some d)\<close> returns \<open>d\<close>,
  \<open>Inr None\<close> goes on to the next stream.
\<close>

definition stream_duration :: "pylib \<Rightarrow> json \<Rightarrow> py_exn + pyfloat option" where
  "stream_duration lib stream =
     bindE (py_contains ''duration'' stream) (\<lambda>c.
       if c then
         bindE (py_getitem stream ''duration'') (\<lambda>v.
         bindE (py_float lib v) (\<lambda>duration. Inr (Some duration)))
       else Inr None)"

fun stream_duration_loop :: "pylib \<Rightarrow> json list \<Rightarrow> py_exn + pyfloat option" where
  "stream_duration_loop lib [] = Inr None"
| "stream_duration_loop lib (stream # streams) =
     (case stream_duration lib stream of
        Inl e \<Rightarrow> Inl e
      | Inr (Some duration) \<Rightarrow> Inr (Some duration)
      | Inr None \<Rightarrow> stream_duration_loop lib streams)"

text \<open>
  The \<^verbatim>\<open>elif\<close> of lines 37-41, followed by line 44. \<^verbatim>\<open>and\<close> evaluates
  its right operand only when the left one is true.
\<close>

definition duration_from_streams :: "pylib \<Rightarrow> json \<Rightarrow> py_exn + pyfloat option" where
  "duration_from_streams lib probe_data =
     bindE (py_contains ''streams'' probe_data) (\<lambda>c.
     bindE (if c then bindE (py_getitem probe_data ''streams'') (\<lambda>ss.
                        bindE (py_len ss) (\<lambda>n. Inr (0 < n)))
            else Inr False) (\<lambda>has_streams.
       if has_streams then
         bindE (py_getitem probe_data ''streams'') (\<lambda>ss.
         bindE (py_iter ss) (stream_duration_loop lib))
       else Inr None))"

text \<open>Lines 33-44, on the decoded output of the probe.\<close>

definition duration_from_probe :: "pylib \<Rightarrow> json \<Rightarrow> py_exn + pyfloat option" where
  "duration_from_probe lib probe_data =
     bindE (py_contains ''format'' probe_data) (\<lambda>c.
     bindE (if c then bindE (py_getitem probe_data ''format'') (py_contains ''duration'')
            else Inr False) (\<lambda>has_format_duration.
       if has_format_duration then
         bindE (py_getitem probe_data ''format'') (\<lambda>fmt.
         bindE (py_getitem fmt ''duration'') (\<lambda>v.
         bindE (py_float lib v) (\<lambda>duration. Inr (Some duration))))
       else duration_from_streams lib probe_data))"

definition py_json_loads :: "pylib \<Rightarrow> string \<Rightarrow> py_exn + json" where
  "py_json_loads lib s = (case json_loads lib s of None \<Rightarrow> Inl JSONDecodeError | Some d \<Rightarrow> Inr d)"

text \<open>The body of the \<^verbatim>\<open>try\<close> (lines 25-44).\<close>

definition get_audio_duration_try ::
  "pylib \<Rightarrow> env \<Rightarrow> string \<Rightarrow> world \<Rightarrow> (py_exn + pyfloat option) \<times> world" where
  "get_audio_duration_try lib ev audio_path w =
     (case subprocess_run_check ev (ffprobe_audio_cmd audio_path) w of
        (Inl e, w') \<Rightarrow> (Inl e, w')
      | (Inr result, w') \<Rightarrow>
          (bindE (py_json_loads lib (stdout result)) (duration_from_probe lib), w'))"

text \<open>The three handlers (lines 46-54) each log and return \<^verbatim>\<open>None\<close>; the last one catches every \<^verbatim>\<open>Exception\<close>.\<close>

definition get_audio_duration ::
  "pylib \<Rightarrow> env \<Rightarrow> string \<Rightarrow> world \<Rightarrow> (py_exn + pyfloat option) \<times> world" where
  "get_audio_duration lib ev audio_path w =
     (case get_audio_duration_try lib ev audio_path w of
        (Inr r, w') \<Rightarrow> (Inr r, w')
      | (Inl (CalledProcessError rc), w') \<Rightarrow> (Inr None, w')
      | (Inl JSONDecodeError, w') \<Rightarrow> (Inr None, w')
      | (Inl e, w') \<Rightarrow> (Inr None, w'))"

subsection \<open>get_image_dimensions (lines 56-87)\<close>

definition ffprobe_image_cmd :: "string \<Rightarrow> string list" where
  "ffprobe_image_cmd image_path =
     [''ffprobe'', ''-v'', ''quiet'', ''-print_format'', ''json'', ''-show_streams'', image_path]"

text \<open>
  One round of the loop of lines 69-74: \<open>Inr (Some (width, height))\<close> returns,
  \<open>Inr None\<close> goes on to the next stream.
\<close>

definition stream_dimensions :: "pylib \<Rightarrow> json \<Rightarrow> py_exn + (int \<times> int) option" where
  "stream_dimensions lib stream =
     bindE (py_get stream ''codec_type'' JNull) (\<lambda>codec_type.
       if codec_type = JStr ''video'' then
         bindE (py_get stream ''width'' (JInt 0)) (\<lambda>wv.
         bindE (py_int lib wv) (\<lambda>width.
         bindE (py_get stream ''height'' (JInt 0)) (\<lambda>hv.
         bindE (py_int lib hv) (\<lambda>height.
           if width > 0 \<and> height > 0 then Inr (Some (width, height)) else Inr None))))
       else Inr None)"

fun stream_dimensions_loop :: "pylib \<Rightarrow> json list \<Rightarrow> py_exn + (int \<times> int) option" where
  "stream_dimensions_loop lib [] = Inr None"
| "stream_dimensions_loop lib (stream # streams) =
     (case stream_dimensions lib stream of
        Inl e \<Rightarrow> Inl e
      | Inr (Some d) \<Rightarrow> Inr (Some d)
      | Inr None \<Rightarrow> stream_dimensions_loop lib streams)"

text \<open>Lines 67-77, on the decoded output of the probe.\<close>

definition dimensions_from_probe :: "pylib \<Rightarrow> json \<Rightarrow> py_exn + (int \<times> int) option" where
  "dimensions_from_probe lib probe_data =
     bindE (py_contains ''streams'' probe_data) (\<lambda>c.
       if c then
         bindE (py_getitem probe_data ''streams'') (\<lambda>ss.
         bindE (py_iter ss) (stream_dimensions_loop lib))
       else Inr None)"

definition get_image_dimensions_try ::
  "pylib \<Rightarrow> env \<Rightarrow> string \<Rightarrow> world \<Rightarrow> (py_exn + (int \<times> int) option) \<times> world" where
  "get_image_dimensions_try lib ev image_path w =
     (case subprocess_run_check ev (ffprobe_image_cmd image_path) w of
        (Inl e, w') \<Rightarrow> (Inl e, w')
      | (Inr result, w') \<Rightarrow>
          (bindE (py_json_loads lib (stdout result)) (dimensions_from_probe lib), w'))"

text \<open>The method returns a pair: \<^verbatim>\<open>(width, height)\<close>, or \<^verbatim>\<open>(None, None)\<close> from line 77 and from each handler.\<close>

definition get_image_dimensions ::
  "pylib \<Rightarrow> env \<Rightarrow> string \<Rightarrow> world \<Rightarrow> (py_exn + int option \<times> int option) \<times> world" where
  "get_image_dimensions lib ev image_path w =
     (case get_image_dimensions_try lib ev image_path w of
        (Inr (Some (width, height)), w') \<Rightarrow> (Inr (Some width, Some height), w')
      | (Inr None, w') \<Rightarrow> (Inr (None, None), w')
      | (Inl (CalledProcessError rc), w') \<Rightarrow> (Inr (None, None), w')
      | (Inl JSONDecodeError, w') \<Rightarrow> (Inr (None, None), w')
      | (Inl e, w') \<Rightarrow> (Inr (None, None), w'))"

subsection \<open>create_video (lines 89-180)\<close>

record request =
  image_path :: string
  audio_path :: string
  output_path :: string
  video_codec :: string
  audio_codec :: string

text \<open>Lines 124-126: the default when either probed dimension is \<^verbatim>\<open>None\<close>.\<close>

definition dimensions_or_default :: "int option \<times> int option \<Rightarrow> int \<times> int" where
  "dimensions_or_default d =
     (case d of (Some width, Some height) \<Rightarrow> (width, height) | _ \<Rightarrow> (1280, 720))"

text \<open>Lines 129-131. Python's \<^verbatim>\<open>%\<close> with a positive divisor is \<open>mod\<close> on \<open>int\<close>.\<close>

definition normalize :: "int \<Rightarrow> int \<Rightarrow> int \<times> int" where
  "normalize width height = (width - (width mod 2), height - (height mod 2))"

text \<open>Lines 139-153.\<close>

definition ffmpeg_cmd :: "pylib \<Rightarrow> request \<Rightarrow> int \<Rightarrow> int \<Rightarrow> pyfloat \<Rightarrow> string list" where
  "ffmpeg_cmd lib rq width height duration =
     [''ffmpeg'', ''-y'', ''-loop'', ''1'',
      ''-i'', image_path rq, ''-i'', audio_path rq,
      ''-c:v'', video_codec rq, ''-c:a'', audio_codec rq,
      ''-pix_fmt'', ''yuv420p'', ''-r'', ''25'',
      ''-vf'', ''scale='' @ str_int width @ '':'' @ str_int height,
      ''-t'', str_float lib duration, ''-shortest'', output_path rq]"

text \<open>Lines 160-162.\<close>

definition ffmpeg_error_msg :: "proc \<Rightarrow> string" where
  "ffmpeg_error_msg result =
     ''FFmpeg failed with return code '' @ str_int (returncode result) @
     (if stderr result \<noteq> [] then '': '' @ stderr result else [])"

text \<open>
  Lines 129-171: from the normalisation to the verification of the output,
  given the duration and the dimensions lines 116-127 have settled.
\<close>

definition encode ::
  "pylib \<Rightarrow> env \<Rightarrow> request \<Rightarrow> pyfloat \<Rightarrow> int \<times> int \<Rightarrow> world \<Rightarrow> (py_exn + bool \<times> string) \<times> world" where
  "encode lib ev rq duration dims w =
     (let (width, height) = normalize (fst dims) (snd dims) in
      case os_makedirs ev (os_path_dirname (output_path rq)) w of
        (Inl e, w1) \<Rightarrow> (Inl e, w1)
      | (Inr u, w1) \<Rightarrow>
          (case subprocess_run ev (ffmpeg_cmd lib rq width height duration) w1 of
             (Inl e, w2) \<Rightarrow> (Inl e, w2)
           | (Inr result, w2) \<Rightarrow>
               if returncode result \<noteq> 0 then (Inr (False, ffmpeg_error_msg result), w2)
               else if os_path_exists (files w2) (output_path rq) then
                 (case os_path_getsize (files w2) (output_path rq) of
                    Inl e \<Rightarrow> (Inl e, w2)
                  | Inr n \<Rightarrow>
                      if n > 0 then (Inr (True, ''Video created successfully''), w2)
                      else (Inr (False, ''Output file was not created or is empty''), w2))
               else (Inr (False, ''Output file was not created or is empty''), w2)))"

text \<open>The body of the \<^verbatim>\<open>try\<close> (lines 104-171).\<close>

definition create_video_try ::
  "pylib \<Rightarrow> env \<Rightarrow> request \<Rightarrow> world \<Rightarrow> (py_exn + bool \<times> string) \<times> world" where
  "create_video_try lib ev rq w =
     (case check_ffmpeg ev w of
        (Inl e, w1) \<Rightarrow> (Inl e, w1)
      | (Inr available, w1) \<Rightarrow>
          if \<not> available then (Inr (False, ''FFmpeg is not installed or not available''), w1)
          else if \<not> os_path_exists (files w1) (image_path rq) then
            (Inr (False, ''Image file not found: '' @ image_path rq), w1)
          else if \<not> os_path_exists (files w1) (audio_path rq) then
            (Inr (False, ''Audio file not found: '' @ audio_path rq), w1)
          else
            (case get_audio_duration lib ev (audio_path rq) w1 of
               (Inl e, w2) \<Rightarrow> (Inl e, w2)
             | (Inr None, w2) \<Rightarrow> (Inr (False, ''Could not determine audio duration''), w2)
             | (Inr (Some duration), w2) \<Rightarrow>
                 (case get_image_dimensions lib ev (image_path rq) w2 of
                    (Inl e, w3) \<Rightarrow> (Inl e, w3)
                  | (Inr d, w3) \<Rightarrow> encode lib ev rq duration (dimensions_or_default d) w3)))"

text \<open>The two handlers (lines 173-180) turn an exception into a failure result.\<close>

definition create_video_except ::
  "pylib \<Rightarrow> (py_exn + bool \<times> string) \<times> world \<Rightarrow> (bool \<times> string) \<times> world" where
  "create_video_except lib t =
     (case t of
        (Inr r, w') \<Rightarrow> (r, w')
      | (Inl (CalledProcessError rc), w') \<Rightarrow>
          ((False, ''FFmpeg process error: '' @ str_exn lib (CalledProcessError rc)), w')
      | (Inl e, w') \<Rightarrow> ((False, ''Unexpected error: '' @ str_exn lib e), w'))"

definition create_video :: "pylib \<Rightarrow> env \<Rightarrow> request \<Rightarrow> world \<Rightarrow> (bool \<times> string) \<times> world" where
  "create_video lib ev rq w = create_video_except lib (create_video_try lib ev rq w)"

text \<open>The encoding command is the one that starts \<^verbatim>\<open>ffmpeg -y\<close>; the availability check runs \<^verbatim>\<open>ffmpeg -version\<close>.\<close>

definition is_transcode :: "event \<Rightarrow> bool" where
  "is_transcode e = (case e of Run cmd rc \<Rightarrow> take 2 cmd = [''ffmpeg'', ''-y''] | Makedirs d \<Rightarrow> False)"

definition is_probe :: "event \<Rightarrow> bool" where
  "is_probe e = (case e of Run cmd rc \<Rightarrow> take 1 cmd = [''ffprobe''] | Makedirs d \<Rightarrow> False)"

section \<open>The cleanup route of app.py (lines 156-185)\<close>

text \<open>
  \<^verbatim>\<open>cleanup_files\<close> sees a folder as \<^verbatim>\<open>os.listdir\<close> lists it. Of each entry
  it can observe the name, what \<^verbatim>\<open>os.path.getctime\<close> gives for it (a time,
  or the exception it raises: the call follows symbolic links and fails on
  a dangling one, and on an entry that has gone meanwhile), and what
  \<^verbatim>\<open>os.remove\<close> does to it (\<open>None\<close> when it removes the entry, or the
  exception it raises: on a directory, on a file it may not delete, on an
  entry that has gone). Times are real numbers.
\<close>

record dirent =
  name :: string
  stat_ctime :: "py_exn + real"
  remove_raises :: "py_exn option"

type_synonym folder = "dirent list"

definition os_listdir :: "folder \<Rightarrow> string list" where
  "os_listdir d = map name d"

definition os_path_getctime :: "folder \<Rightarrow> string \<Rightarrow> py_exn + real" where
  "os_path_getctime d fn =
     (case find (\<lambda>e. name e = fn) d of
        None \<Rightarrow> Inl (FileNotFoundError fn)
      | Some e \<Rightarrow> stat_ctime e)"

definition os_remove :: "folder \<Rightarrow> string \<Rightarrow> py_exn + folder" where
  "os_remove d fn =
     (case find (\<lambda>e. name e = fn) d of
        None \<Rightarrow> Inl (FileNotFoundError fn)
      | Some e \<Rightarrow>
          (case remove_raises e of
             Some x \<Rightarrow> Inl x
           | None \<Rightarrow> Inr (filter (\<lambda>e. name e \<noteq> fn) d)))"

text \<open>
  One of the two loops (lines 164-170 and 173-179) over the names listed
  before it starts. An exception ends it; the folder is then as the
  removals so far have left it.
\<close>

fun cleanup_loop :: "real \<Rightarrow> real \<Rightarrow> string list \<Rightarrow> folder \<Rightarrow> (py_exn + unit) \<times> folder" where
  "cleanup_loop current_time cleanup_threshold [] d = (Inr (), d)"
| "cleanup_loop current_time cleanup_threshold (filename # filenames) d =
     (if filename = ''.gitkeep'' then cleanup_loop current_time cleanup_threshold filenames d
      else
        (case os_path_getctime d filename of
           Inl e \<Rightarrow> (Inl e, d)
         | Inr c \<Rightarrow>
             if c < current_time - cleanup_threshold then
               (case os_remove d filename of
                  Inl e \<Rightarrow> (Inl e, d)
                | Inr d' \<Rightarrow> cleanup_loop current_time cleanup_threshold filenames d')
             else cleanup_loop current_time cleanup_threshold filenames d))"

record store =
  upload_folder :: folder
  output_folder :: folder

text \<open>
  \<^verbatim>\<open>cleanup_files\<close>, given what \<^verbatim>\<open>time.time()\<close> returns. The result is the
  status and the message of the JSON response.
\<close>

definition cleanup_files :: "pylib \<Rightarrow> real \<Rightarrow> store \<Rightarrow> (string \<times> string) \<times> store" where
  "cleanup_files lib current_time st =
     (let cleanup_threshold = 3600 in
      case cleanup_loop current_time cleanup_threshold
             (os_listdir (upload_folder st)) (upload_folder st) of
        (Inl e, u) \<Rightarrow> ((''error'', str_exn lib e), st\<lparr>upload_folder := u\<rparr>)
      | (Inr x, u) \<Rightarrow>
          (case cleanup_loop current_time cleanup_threshold
                  (os_listdir (output_folder st)) (output_folder st) of
             (Inl e, out) \<Rightarrow>
               ((''error'', str_exn lib e), \<lparr>upload_folder = u, output_folder = out\<rparr>)
           | (Inr y, out) \<Rightarrow>
               ((''success'', ''Cleanup completed''),
                \<lparr>upload_folder = u, output_folder = out\<rparr>)))"

section \<open>Notions used to state the claims\<close>

text \<open>What a call has added to the events of a world.\<close>

definition add_events :: "world \<Rightarrow> event list \<Rightarrow> world" where
  "add_events w evs = w\<lparr>events := events w @ evs\<rparr>"

definition new_events :: "world \<Rightarrow> world \<Rightarrow> event list" where
  "new_events w w' = drop (length (events w)) (events w')"

definition run_event :: "env \<Rightarrow> string list \<Rightarrow> fs \<Rightarrow> event" where
  "run_event ev cmd f = Run cmd (exit_code (run_query ev cmd f))"

definition version_event :: "env \<Rightarrow> fs \<Rightarrow> event" where
  "version_event ev f = run_event ev [''ffmpeg'', ''-version''] f"

definition audio_probe_event :: "env \<Rightarrow> request \<Rightarrow> fs \<Rightarrow> event" where
  "audio_probe_event ev rq f = run_event ev (ffprobe_audio_cmd (audio_path rq)) f"

definition image_probe_event :: "env \<Rightarrow> request \<Rightarrow> fs \<Rightarrow> event" where
  "image_probe_event ev rq f = run_event ev (ffprobe_image_cmd (image_path rq)) f"

text \<open>An encoding run that exited with code 0.\<close>

definition transcode_exit_zero :: "event \<Rightarrow> bool" where
  "transcode_exit_zero e = (is_transcode e \<and> (case e of Run cmd rc \<Rightarrow> rc = Some 0 | Makedirs d \<Rightarrow> False))"

text \<open>No exception leaves the \<^verbatim>\<open>try\<close> block of \<open>create_video\<close> (lines 104-171).\<close>

definition completes :: "pylib \<Rightarrow> env \<Rightarrow> request \<Rightarrow> world \<Rightarrow> bool" where
  "completes lib ev rq w =
     (case fst (create_video_try lib ev rq w) of Inl e \<Rightarrow> False | Inr r \<Rightarrow> True)"

text \<open>The output path exists and its size is greater than zero.\<close>

definition output_nonempty :: "fs \<Rightarrow> request \<Rightarrow> bool" where
  "output_nonempty f rq = (case f (output_path rq) of None \<Rightarrow> False | Some n \<Rightarrow> 0 < n)"

text \<open>
  The messages of the failures the specification calls ToolMissing (line 106),
  InputNotFound (lines 110 and 113) and ProbeFailed (line 118).
\<close>

definition early_failure :: "request \<Rightarrow> string \<Rightarrow> bool" where
  "early_failure rq msg =
     (msg = ''FFmpeg is not installed or not available''
      \<or> msg = ''Image file not found: '' @ image_path rq
      \<or> msg = ''Audio file not found: '' @ audio_path rq
      \<or> msg = ''Could not determine audio duration'')"

definition is_makedirs :: "event \<Rightarrow> bool" where
  "is_makedirs e = (case e of Run cmd rc \<Rightarrow> False | Makedirs d \<Rightarrow> True)"

text \<open>
  How a probe run ends, as \<open>get_audio_duration\<close> and \<open>get_image_dimensions\<close>
  see it: the process cannot be started or exits with a non-zero code, its
  output is not valid JSON, or its output decodes to a value.
\<close>

datatype probe_outcome = ProbeFailed | ProbeMalformed | ProbeData json

definition probe_outcome :: "pylib \<Rightarrow> env \<Rightarrow> string list \<Rightarrow> fs \<Rightarrow> probe_outcome" where
  "probe_outcome lib ev cmd f =
     (case run_query ev cmd f of
        Inl e \<Rightarrow> ProbeFailed
      | Inr p \<Rightarrow>
          if returncode p \<noteq> 0 then ProbeFailed
          else (case json_loads lib (stdout p) of
                  None \<Rightarrow> ProbeMalformed
                | Some data \<Rightarrow> ProbeData data))"

text \<open>
  Probe output of the expected shape: an object whose \<^verbatim>\<open>format\<close>, when
  present, is an object and whose \<^verbatim>\<open>streams\<close>, when present, is a list of
  objects.
\<close>

fun is_obj :: "json \<Rightarrow> bool" where
  "is_obj (JObj kvs) = True"
| "is_obj v = False"

definition plain_probe :: "json \<Rightarrow> bool" where
  "plain_probe data =
     (case data of
        JObj kvs \<Rightarrow>
          (case map_of kvs ''format'' of None \<Rightarrow> True | Some fmt \<Rightarrow> is_obj fmt)
          \<and> (case map_of kvs ''streams'' of
                None \<Rightarrow> True
              | Some (JArr ss) \<Rightarrow> list_all is_obj ss
              | Some v \<Rightarrow> False)
      | v \<Rightarrow> False)"

definition field :: "string \<Rightarrow> json \<Rightarrow> json option" where
  "field k v = (case v of JObj kvs \<Rightarrow> map_of kvs k | u \<Rightarrow> None)"

definition streams_of :: "json \<Rightarrow> json list" where
  "streams_of data = (case field ''streams'' data of Some (JArr ss) \<Rightarrow> ss | u \<Rightarrow> [])"

text \<open>
  The duration field in the words of the specification: the duration of the
  top-level format metadata, or else the first stream-level duration field.
\<close>

definition located_duration :: "json \<Rightarrow> json option" where
  "located_duration data =
     (case Option.bind (field ''format'' data) (field ''duration'') of
        Some v \<Rightarrow> Some v
      | None \<Rightarrow>
          (case find (\<lambda>s. field ''duration'' s \<noteq> None) (streams_of data) of
             None \<Rightarrow> None
           | Some s \<Rightarrow> field ''duration'' s))"

text \<open>\<^verbatim>\<open>float\<close> of a located field; absent when there is none or \<^verbatim>\<open>float\<close> raises.\<close>

definition float_or_absent :: "pylib \<Rightarrow> json option \<Rightarrow> pyfloat option" where
  "float_or_absent lib v =
     (case v of
        None \<Rightarrow> None
      | Some x \<Rightarrow> (case py_float lib x of Inl e \<Rightarrow> None | Inr d \<Rightarrow> Some d))"

definition absent_on_raise :: "py_exn + 'a option \<Rightarrow> 'a option" where
  "absent_on_raise r = (case r of Inl e \<Rightarrow> None | Inr x \<Rightarrow> x)"

text \<open>
  The objects \<open>get_audio_duration\<close> reads a duration from: the value under
  \<^verbatim>\<open>format\<close> and the elements the loop over \<^verbatim>\<open>streams\<close> visits.
\<close>

definition duration_holder :: "json \<Rightarrow> json \<Rightarrow> bool" where
  "duration_holder data obj =
     (py_getitem data ''format'' = Inr obj
      \<or> (\<exists>ss xs. py_getitem data ''streams'' = Inr ss \<and> py_iter ss = Inr xs \<and> obj \<in> set xs))"

text \<open>
  The notions of the dimension probe. A video stream is one whose
  \<^verbatim>\<open>codec_type\<close> is the string \<^verbatim>\<open>video\<close>; \<open>int_field\<close> is the integer a
  stream holds under a key, 0 when it holds none; a stream reports
  dimensions when it is a video stream with positive width and height.
\<close>

definition is_video :: "json \<Rightarrow> bool" where
  "is_video s = (field ''codec_type'' s = Some (JStr ''video''))"

definition int_field :: "string \<Rightarrow> json \<Rightarrow> int" where
  "int_field k s = (case field k s of Some (JInt i) \<Rightarrow> i | u \<Rightarrow> 0)"

definition reports_dimensions :: "json \<Rightarrow> bool" where
  "reports_dimensions s = (is_video s \<and> 0 < int_field ''width'' s \<and> 0 < int_field ''height'' s)"

text \<open>
  Image probe output of the expected shape: an object whose \<^verbatim>\<open>streams\<close>,
  when present, is a list of objects whose \<^verbatim>\<open>width\<close> and \<^verbatim>\<open>height\<close>, when
  present, are integers.
\<close>

definition int_or_absent :: "json option \<Rightarrow> bool" where
  "int_or_absent v = (case v of None \<Rightarrow> True | Some (JInt i) \<Rightarrow> True | Some u \<Rightarrow> False)"

definition plain_stream :: "json \<Rightarrow> bool" where
  "plain_stream s =
     (is_obj s \<and> int_or_absent (field ''width'' s) \<and> int_or_absent (field ''height'' s))"

definition plain_image_probe :: "json \<Rightarrow> bool" where
  "plain_image_probe data =
     (case data of
        JObj kvs \<Rightarrow>
          (case map_of kvs ''streams'' of
             None \<Rightarrow> True
           | Some (JArr ss) \<Rightarrow> list_all plain_stream ss
           | Some v \<Rightarrow> False)
      | v \<Rightarrow> False)"

text \<open>The pair read from a chosen stream; \<^verbatim>\<open>(None, None)\<close> when no stream is chosen.\<close>

definition dimensions_of :: "json option \<Rightarrow> int option \<times> int option" where
  "dimensions_of s =
     (case s of
        None \<Rightarrow> (None, None)
      | Some x \<Rightarrow> (Some (int_field ''width'' x), Some (int_field ''height'' x)))"

definition pair_or_absent :: "py_exn + (int \<times> int) option \<Rightarrow> int option \<times> int option" where
  "pair_or_absent r =
     (case r of
        Inr (Some (width, height)) \<Rightarrow> (Some width, Some height)
      | u \<Rightarrow> (None, None))"

text \<open>
  The notions of the sweep. An entry is stale when it is not the placeholder
  \<^verbatim>\<open>.gitkeep\<close> and \<^verbatim>\<open>os.path.getctime\<close> gives it a time older than the
  current time minus the threshold; \<open>swept\<close> is a folder without its stale
  entries, for the threshold of 3600 seconds \<open>cleanup_files\<close> uses. A folder
  is sweepable when every call the sweep makes on it succeeds:
  \<^verbatim>\<open>os.path.getctime\<close> on each entry but the placeholder, and \<^verbatim>\<open>os.remove\<close> on
  each stale entry.
\<close>

definition stale :: "real \<Rightarrow> real \<Rightarrow> dirent \<Rightarrow> bool" where
  "stale now thr e =
     (name e \<noteq> ''.gitkeep''
      \<and> (case stat_ctime e of Inl x \<Rightarrow> False | Inr c \<Rightarrow> c < now - thr))"

definition swept :: "real \<Rightarrow> folder \<Rightarrow> folder" where
  "swept now d = filter (\<lambda>e. \<not> stale now 3600 e) d"

definition calls_succeed :: "real \<Rightarrow> dirent \<Rightarrow> bool" where
  "calls_succeed now e =
     (name e = ''.gitkeep''
      \<or> (case stat_ctime e of Inl x \<Rightarrow> False | Inr c \<Rightarrow> True)
         \<and> (if stale now 3600 e then remove_raises e = None else True))"

definition sweepable :: "real \<Rightarrow> folder \<Rightarrow> bool" where
  "sweepable now d = list_all (calls_succeed now) d"

section \<open>Sample inputs\<close>

text \<open>
  Concrete inputs for the examples. \<open>sample_lib\<close> is an excerpt of the Python
  library: what its functions return on the texts and values of the examples
  (\<^verbatim>\<open>float("12.500000")\<close> is 12.5, \<^verbatim>\<open>float("N/A")\<close> raises ValueError,
  \<^verbatim>\<open>str(12.5)\<close> is \<^verbatim>\<open>'12.5'\<close>, and so on).
\<close>

definition audio_json_text :: string where
  "audio_json_text = ''{\"format\": {\"duration\": \"12.500000\"}}''"

definition audio_json :: json where
  "audio_json = JObj [(''format'', JObj [(''duration'', JStr ''12.500000'')])]"

definition streams_json_text :: string where
  "streams_json_text = ''{\"streams\": [{\"codec_type\": \"audio\"}, {\"duration\": \"12.500000\"}]}''"

definition streams_json :: json where
  "streams_json =
     JObj [(''streams'', JArr [JObj [(''codec_type'', JStr ''audio'')],
                               JObj [(''duration'', JStr ''12.500000'')]])]"

definition na_json_text :: string where
  "na_json_text = ''{\"format\": {\"duration\": \"N/A\"}}''"

definition na_json :: json where
  "na_json = JObj [(''format'', JObj [(''duration'', JStr ''N/A'')])]"

definition zero_json_text :: string where
  "zero_json_text = ''{\"format\": {\"duration\": \"0.000000\"}}''"

definition zero_json :: json where
  "zero_json = JObj [(''format'', JObj [(''duration'', JStr ''0.000000'')])]"

definition image_json_text :: string where
  "image_json_text =
     ''{\"streams\": [{\"codec_type\": \"video\", \"width\": 1281, \"height\": 721}]}''"

definition image_json :: json where
  "image_json =
     JObj [(''streams'',
            JArr [JObj [(''codec_type'', JStr ''video''),
                        (''width'', JInt 1281), (''height'', JInt 721)]])]"

definition two_video_json_text :: string where
  "two_video_json_text =
     ''{\"streams\": [{\"codec_type\": \"video\"}, {\"codec_type\": \"video\", \"width\": 640, \"height\": 480}]}''"

definition two_video_json :: json where
  "two_video_json =
     JObj [(''streams'',
            JArr [JObj [(''codec_type'', JStr ''video'')],
                  JObj [(''codec_type'', JStr ''video''),
                        (''width'', JInt 640), (''height'', JInt 480)]])]"

definition no_streams_json_text :: string where
  "no_streams_json_text = ''{\"streams\": []}''"

definition no_streams_json :: json where
  "no_streams_json = JObj [(''streams'', JArr [])]"

definition sample_lib :: pylib where
  "sample_lib =
     \<lparr>json_loads = (\<lambda>s.
        if s = audio_json_text then Some audio_json
        else if s = streams_json_text then Some streams_json
        else if s = na_json_text then Some na_json
        else if s = zero_json_text then Some zero_json
        else if s = image_json_text then Some image_json
        else if s = two_video_json_text then Some two_video_json
        else if s = no_streams_json_text then Some no_streams_json
        else None),
      float_str = (\<lambda>s.
        if s = ''12.500000'' then Some (Fin 12.5)
        else if s = ''0.000000'' then Some (Fin 0)
        else None),
      float_big = (\<lambda>i. Inl OverflowError),
      int_str = (\<lambda>s. None),
      str_float = (\<lambda>f. if f = Fin 12.5 then ''12.5'' else ''0.0''),
      str_exn = (\<lambda>e. case e of
                   FileNotFoundError m \<Rightarrow> m
                 | OSError m \<Rightarrow> m
                 | IsADirectoryError m \<Rightarrow> m
                 | _ \<Rightarrow> [])\<rparr>"

definition sample_request :: request where
  "sample_request =
     \<lparr>image_path = ''uploads/a.png'', audio_path = ''uploads/a.mp3'',
      output_path = ''output/a_video.mp4'', video_codec = ''libx264'', audio_codec = ''aac''\<rparr>"

definition sample_fs :: fs where
  "sample_fs = [''uploads/a.png'' \<mapsto> 100, ''uploads/a.mp3'' \<mapsto> 200]"

definition sample_world :: world where
  "sample_world = \<lparr>files = sample_fs, events = []\<rparr>"

definition ok_proc :: "string \<Rightarrow> proc" where
  "ok_proc out = \<lparr>returncode = 0, stdout = out, stderr = []\<rparr>"

text \<open>
  An environment where the tools are installed: \<^verbatim>\<open>ffprobe\<close> prints
  \<open>audio_out\<close> for the audio file and \<open>image_out\<close> for the image, the encoding
  exits with \<open>rc\<close> and leaves an output file of \<open>sz\<close> bytes.
\<close>

definition sample_env :: "string \<Rightarrow> string \<Rightarrow> int \<Rightarrow> nat \<Rightarrow> env" where
  "sample_env audio_out image_out rc sz =
     \<lparr>run_query = (\<lambda>cmd f.
        if cmd = [''ffmpeg'', ''-version''] then Inr (ok_proc ''ffmpeg version 6.0'')
        else if cmd = ffprobe_audio_cmd ''uploads/a.mp3'' then Inr (ok_proc audio_out)
        else if cmd = ffprobe_image_cmd ''uploads/a.png'' then Inr (ok_proc image_out)
        else Inl (FileNotFoundError (hd cmd))),
      run_transcode = (\<lambda>cmd f.
        Completed \<lparr>returncode = rc, stdout = [], stderr = []\<rparr> (f(last cmd \<mapsto> sz))),
      makedirs = (\<lambda>d f. Inr (f(d \<mapsto> 4096)))\<rparr>"

text \<open>An environment without the tools: every invocation raises FileNotFoundError.\<close>

definition bare_env :: env where
  "bare_env =
     \<lparr>run_query = (\<lambda>cmd f. Inl (FileNotFoundError (hd cmd))),
      run_transcode = (\<lambda>cmd f. NotStarted (FileNotFoundError (hd cmd))),
      makedirs = (\<lambda>d f. Inr (f(d \<mapsto> 4096)))\<rparr>"

text \<open>
  An environment where the encoding exits with 0 and leaves an output file
  of 5000 bytes, but prints bytes on its error stream that are not decodable
  text.
\<close>

definition garbled_env :: env where
  "garbled_env =
     (sample_env audio_json_text image_json_text 0 5000)
       \<lparr>run_transcode := (\<lambda>cmd f. Undecodable UnicodeDecodeError 0 (f(last cmd \<mapsto> 5000)))\<rparr>"

definition no_audio_request :: request where
  "no_audio_request = sample_request\<lparr>audio_path := ''uploads/missing.mp3''\<rparr>"

definition no_image_request :: request where
  "no_image_request = sample_request\<lparr>image_path := ''uploads/missing.png''\<rparr>"

text \<open>Probe output that is not JSON.\<close>

definition garbage_text :: string where
  "garbage_text = ''ffprobe: not json''"

text \<open>Folders for the examples of the sweep, at the current time 10000.\<close>

definition gitkeep :: dirent where
  "gitkeep = \<lparr>name = ''.gitkeep'', stat_ctime = Inr 0, remove_raises = None\<rparr>"

definition old_png :: dirent where
  "old_png = \<lparr>name = ''old.png'', stat_ctime = Inr 100, remove_raises = None\<rparr>"

definition new_mp3 :: dirent where
  "new_mp3 = \<lparr>name = ''new.mp3'', stat_ctime = Inr 9000, remove_raises = None\<rparr>"

definition old_video :: dirent where
  "old_video = \<lparr>name = ''old_video.mp4'', stat_ctime = Inr 50, remove_raises = None\<rparr>"

text \<open>A directory, which \<^verbatim>\<open>os.remove\<close> refuses.\<close>

definition old_dir :: dirent where
  "old_dir =
     \<lparr>name = ''old_dir'', stat_ctime = Inr 100,
      remove_raises = Some (IsADirectoryError ''old_dir'')\<rparr>"

text \<open>A symbolic link whose target is missing: \<^verbatim>\<open>os.path.getctime\<close> raises on it.\<close>

definition dangling_link :: dirent where
  "dangling_link =
     \<lparr>name = ''link'', stat_ctime = Inl (FileNotFoundError ''link''), remove_raises = None\<rparr>"

definition tidy_store :: store where
  "tidy_store =
     \<lparr>upload_folder = [gitkeep, old_png, new_mp3], output_folder = [gitkeep, old_video]\<rparr>"

definition cluttered_store :: store where
  "cluttered_store =
     \<lparr>upload_folder = [old_dir, old_png], output_folder = [old_video]\<rparr>"

definition linked_store :: store where
  "linked_store =
     \<lparr>upload_folder = [dangling_link, old_png], output_folder = [old_video]\<rparr>"

section \<open>Auxiliary facts\<close>

lemma subprocess_run_check_world:
  "snd (subprocess_run_check ev cmd w) =
     w\<lparr>events := events w @ [Run cmd (exit_code (run_query ev cmd (files w)))]\<rparr>"
  by (simp add: subprocess_run_check_def Let_def split: sum.splits)

lemma subprocess_run_check_fst:
  "fst (subprocess_run_check ev cmd w) =
     (case run_query ev cmd (files w) of
        Inl e \<Rightarrow> Inl e
      | Inr p \<Rightarrow> if returncode p \<noteq> 0 then Inl (CalledProcessError (returncode p)) else Inr p)"
  by (simp add: subprocess_run_check_def Let_def split: sum.splits)

lemma check_ffmpeg_world:
  "snd (check_ffmpeg ev w) =
     w\<lparr>events := events w @
        [Run [''ffmpeg'', ''-version''] (exit_code (run_query ev [''ffmpeg'', ''-version''] (files w)))]\<rparr>"
proof -
  obtain a w' where s: "subprocess_run_check ev [''ffmpeg'', ''-version''] w = (a, w')"
    by (cases "subprocess_run_check ev [''ffmpeg'', ''-version''] w")
  have "w' = snd (subprocess_run_check ev [''ffmpeg'', ''-version''] w)" by (simp add: s)
  then have w': "w' = w\<lparr>events := events w @
        [Run [''ffmpeg'', ''-version''] (exit_code (run_query ev [''ffmpeg'', ''-version''] (files w)))]\<rparr>"
    by (simp only: subprocess_run_check_world)
  have "snd (check_ffmpeg ev w) = w'"
    by (simp add: check_ffmpeg_def s split: sum.splits py_exn.splits)
  then show ?thesis by (simp only: w')
qed

lemma check_ffmpeg_True:
  "fst (check_ffmpeg ev w) = Inr True \<longleftrightarrow>
     (\<exists>p. run_query ev [''ffmpeg'', ''-version''] (files w) = Inr p \<and> returncode p = 0)"
  by (auto simp: check_ffmpeg_def subprocess_run_check_def Let_def split: sum.splits py_exn.splits)

lemma check_ffmpeg_True_exit:
  "fst (check_ffmpeg ev w) = Inr True \<Longrightarrow>
     exit_code (run_query ev [''ffmpeg'', ''-version''] (files w)) = Some 0"
  by (auto simp: check_ffmpeg_True exit_code_def)

lemma get_audio_duration_world:
  "snd (get_audio_duration lib ev p w) =
     w\<lparr>events := events w @
        [Run (ffprobe_audio_cmd p) (exit_code (run_query ev (ffprobe_audio_cmd p) (files w)))]\<rparr>"
proof -
  obtain a w' where s: "subprocess_run_check ev (ffprobe_audio_cmd p) w = (a, w')"
    by (cases "subprocess_run_check ev (ffprobe_audio_cmd p) w")
  have "w' = snd (subprocess_run_check ev (ffprobe_audio_cmd p) w)" by (simp add: s)
  then have w': "w' = w\<lparr>events := events w @
        [Run (ffprobe_audio_cmd p) (exit_code (run_query ev (ffprobe_audio_cmd p) (files w)))]\<rparr>"
    by (simp only: subprocess_run_check_world)
  have "snd (get_audio_duration lib ev p w) = w'"
    by (simp add: get_audio_duration_def get_audio_duration_try_def s split: sum.splits py_exn.splits)
  then show ?thesis by (simp only: w')
qed

lemma get_audio_duration_Inr:
  "\<exists>r. fst (get_audio_duration lib ev p w) = Inr r"
  by (simp add: get_audio_duration_def split: prod.splits sum.splits py_exn.splits)

lemma get_audio_duration_files:
  "files w = files w' \<Longrightarrow>
     fst (get_audio_duration lib ev p w) = fst (get_audio_duration lib ev p w')"
  by (simp add: get_audio_duration_def get_audio_duration_try_def subprocess_run_check_def Let_def
      split: prod.splits sum.splits py_exn.splits)

lemma get_image_dimensions_world:
  "snd (get_image_dimensions lib ev p w) =
     w\<lparr>events := events w @
        [Run (ffprobe_image_cmd p) (exit_code (run_query ev (ffprobe_image_cmd p) (files w)))]\<rparr>"
proof -
  obtain a w' where s: "subprocess_run_check ev (ffprobe_image_cmd p) w = (a, w')"
    by (cases "subprocess_run_check ev (ffprobe_image_cmd p) w")
  have "w' = snd (subprocess_run_check ev (ffprobe_image_cmd p) w)" by (simp add: s)
  then have w': "w' = w\<lparr>events := events w @
        [Run (ffprobe_image_cmd p) (exit_code (run_query ev (ffprobe_image_cmd p) (files w)))]\<rparr>"
    by (simp only: subprocess_run_check_world)
  have "snd (get_image_dimensions lib ev p w) = w'"
    by (simp add: get_image_dimensions_def get_image_dimensions_try_def s
        split: sum.splits py_exn.splits option.splits prod.splits)
  then show ?thesis by (simp only: w')
qed

lemma get_image_dimensions_Inr:
  "\<exists>r. fst (get_image_dimensions lib ev p w) = Inr r"
  by (simp add: get_image_dimensions_def split: prod.splits sum.splits py_exn.splits option.splits)

lemma get_image_dimensions_files:
  "files w = files w' \<Longrightarrow>
     fst (get_image_dimensions lib ev p w) = fst (get_image_dimensions lib ev p w')"
  by (simp add: get_image_dimensions_def get_image_dimensions_try_def subprocess_run_check_def Let_def
      split: prod.splits sum.splits py_exn.splits option.splits)

lemma get_audio_duration_events_irrelevant:
  "fst (get_audio_duration lib ev p (w\<lparr>events := x\<rparr>)) = fst (get_audio_duration lib ev p w)"
  by (rule get_audio_duration_files) simp

lemma get_image_dimensions_events_irrelevant:
  "fst (get_image_dimensions lib ev p (w\<lparr>events := x\<rparr>)) = fst (get_image_dimensions lib ev p w)"
  by (rule get_image_dimensions_files) simp

lemma create_video_try_eq:
  "create_video_try lib ev rq w =
     (case fst (check_ffmpeg ev w) of
        Inl e \<Rightarrow> (Inl e, add_events w [version_event ev (files w)])
      | Inr available \<Rightarrow>
          if \<not> available then
            (Inr (False, ''FFmpeg is not installed or not available''),
             add_events w [version_event ev (files w)])
          else if \<not> os_path_exists (files w) (image_path rq) then
            (Inr (False, ''Image file not found: '' @ image_path rq),
             add_events w [version_event ev (files w)])
          else if \<not> os_path_exists (files w) (audio_path rq) then
            (Inr (False, ''Audio file not found: '' @ audio_path rq),
             add_events w [version_event ev (files w)])
          else
            (case fst (get_audio_duration lib ev (audio_path rq) w) of
               Inl e \<Rightarrow>
                 (Inl e, add_events w [version_event ev (files w), audio_probe_event ev rq (files w)])
             | Inr None \<Rightarrow>
                 (Inr (False, ''Could not determine audio duration''),
                  add_events w [version_event ev (files w), audio_probe_event ev rq (files w)])
             | Inr (Some duration) \<Rightarrow>
                 (case fst (get_image_dimensions lib ev (image_path rq) w) of
                    Inl e \<Rightarrow>
                      (Inl e, add_events w [version_event ev (files w),
                         audio_probe_event ev rq (files w), image_probe_event ev rq (files w)])
                  | Inr d \<Rightarrow>
                      encode lib ev rq duration (dimensions_or_default d)
                        (add_events w [version_event ev (files w),
                           audio_probe_event ev rq (files w), image_probe_event ev rq (files w)]))))"
  unfolding create_video_try_def
  by (simp add: split_beta check_ffmpeg_world get_audio_duration_world get_image_dimensions_world
      get_audio_duration_events_irrelevant get_image_dimensions_events_irrelevant
      add_events_def version_event_def audio_probe_event_def image_probe_event_def run_event_def
      split: sum.splits option.splits)

lemma encode_eq:
  "encode lib ev rq duration dims w =
     (let dir = os_path_dirname (output_path rq);
          cmd = ffmpeg_cmd lib rq (fst (normalize (fst dims) (snd dims)))
                  (snd (normalize (fst dims) (snd dims))) duration
      in case makedirs ev dir (files w) of
           Inl e \<Rightarrow> (Inl e, add_events w [Makedirs dir])
         | Inr f1 \<Rightarrow>
             (case run_transcode ev cmd f1 of
                NotStarted e \<Rightarrow>
                  (Inl e, \<lparr>files = f1, events = events w @ [Makedirs dir, Run cmd None]\<rparr>)
              | Undecodable e rc f2 \<Rightarrow>
                  (Inl e, \<lparr>files = f2, events = events w @ [Makedirs dir, Run cmd (Some rc)]\<rparr>)
              | Completed p f2 \<Rightarrow>
                  (Inr (if returncode p \<noteq> 0 then (False, ffmpeg_error_msg p)
                        else if output_nonempty f2 rq then (True, ''Video created successfully'')
                        else (False, ''Output file was not created or is empty'')),
                   \<lparr>files = f2,
                    events = events w @ [Makedirs dir, Run cmd (Some (returncode p))]\<rparr>)))"
  by (simp add: encode_def os_makedirs_def subprocess_run_def add_events_def Let_def split_beta
      os_path_exists_def os_path_getsize_def output_nonempty_def
      split: sum.splits option.splits prod.splits run_outcome.splits)

lemma is_transcode_ffmpeg_cmd: "is_transcode (Run (ffmpeg_cmd lib rq a b d) rc)"
  by (simp add: is_transcode_def ffmpeg_cmd_def)

lemma not_transcode_version: "\<not> is_transcode (version_event ev f)"
  by (simp add: is_transcode_def version_event_def run_event_def)

lemma not_transcode_audio: "\<not> is_transcode (audio_probe_event ev rq f)"
  by (simp add: is_transcode_def audio_probe_event_def run_event_def ffprobe_audio_cmd_def)

lemma not_transcode_image: "\<not> is_transcode (image_probe_event ev rq f)"
  by (simp add: is_transcode_def image_probe_event_def run_event_def ffprobe_image_cmd_def)

lemma new_events_add [simp]: "new_events w (add_events w evs) = evs"
  by (simp add: new_events_def add_events_def)

lemma new_events_app [simp]: "new_events w \<lparr>files = f, events = events w @ evs\<rparr> = evs"
  by (simp add: new_events_def)

lemma new_events_add_app [simp]:
  "new_events w \<lparr>files = f, events = events (add_events w evs) @ evs'\<rparr> = evs @ evs'"
  by (simp add: new_events_def add_events_def)

lemma new_events_add_add [simp]:
  "new_events w (add_events (add_events w evs) evs') = evs @ evs'"
  by (simp add: new_events_def add_events_def)

lemma files_add_events [simp]: "files (add_events w evs) = files w"
  by (simp add: add_events_def)

lemma create_video_except_snd: "snd (create_video_except lib t) = snd t"
  by (simp add: create_video_except_def split: prod.splits sum.splits py_exn.splits)

lemma create_video_except_ok:
  "fst (fst (create_video_except lib t)) = (case fst t of Inr r \<Rightarrow> fst r | Inl e \<Rightarrow> False)"
  by (simp add: create_video_except_def split: prod.splits sum.splits py_exn.splits)

lemma create_video_except_Inr: "fst t = Inr r \<Longrightarrow> fst (create_video_except lib t) = r"
  by (cases t) (simp add: create_video_except_def)

lemma create_video_try_success:
  "(case fst (create_video_try lib ev rq w) of Inr r \<Rightarrow> fst r | Inl e \<Rightarrow> False) \<longleftrightarrow>
      completes lib ev rq w
      \<and> list_ex transcode_exit_zero (new_events w (snd (create_video_try lib ev rq w)))
      \<and> output_nonempty (files (snd (create_video_try lib ev rq w))) rq"
  unfolding completes_def create_video_try_eq encode_eq
  by (simp add: Let_def transcode_exit_zero_def is_transcode_ffmpeg_cmd not_transcode_version
     not_transcode_audio not_transcode_image
     split: sum.splits option.splits prod.splits run_outcome.splits)

lemma create_video_try_empty:
  "completes lib ev rq w \<and>
   list_ex transcode_exit_zero (new_events w (snd (create_video_try lib ev rq w))) \<and>
   \<not> output_nonempty (files (snd (create_video_try lib ev rq w))) rq \<longrightarrow>
   fst (create_video_try lib ev rq w) = Inr (False, ''Output file was not created or is empty'')"
  unfolding completes_def create_video_try_eq encode_eq
  by (simp add: Let_def transcode_exit_zero_def is_transcode_ffmpeg_cmd not_transcode_version
     not_transcode_audio not_transcode_image
     split: sum.splits option.splits prod.splits run_outcome.splits)

lemma sample_json_loads:
  "json_loads sample_lib audio_json_text = Some audio_json"
  "json_loads sample_lib image_json_text = Some image_json"
  by (simp_all add: sample_lib_def audio_json_text_def image_json_text_def streams_json_text_def
     na_json_text_def zero_json_text_def)

lemma sample_check: "fst (check_ffmpeg (sample_env a i rc sz) w) = Inr True"
  by (simp add: check_ffmpeg_True sample_env_def ok_proc_def)

lemma sample_audio:
  "fst (get_audio_duration sample_lib (sample_env audio_json_text i rc sz) ''uploads/a.mp3'' w)
     = Inr (Some (Fin 12.5))"
  by (simp add: get_audio_duration_def get_audio_duration_try_def subprocess_run_check_def
      sample_env_def ok_proc_def ffprobe_audio_cmd_def Let_def py_json_loads_def sample_json_loads
      duration_from_probe_def audio_json_def sample_lib_def)

lemma sample_image:
  "fst (get_image_dimensions sample_lib (sample_env a image_json_text rc sz) ''uploads/a.png'' w)
     = Inr (Some 1281, Some 721)"
  by (simp add: get_image_dimensions_def get_image_dimensions_try_def subprocess_run_check_def
      sample_env_def ok_proc_def ffprobe_audio_cmd_def ffprobe_image_cmd_def
      Let_def py_json_loads_def sample_json_loads
      dimensions_from_probe_def image_json_def stream_dimensions_def)

lemma sample_try:
  "create_video_try sample_lib (sample_env audio_json_text image_json_text rc sz) sample_request sample_world
   = encode sample_lib (sample_env audio_json_text image_json_text rc sz) sample_request (Fin 12.5) (1281, 721)
       (add_events sample_world
          [version_event (sample_env audio_json_text image_json_text rc sz) sample_fs,
           audio_probe_event (sample_env audio_json_text image_json_text rc sz) sample_request sample_fs,
           image_probe_event (sample_env audio_json_text image_json_text rc sz) sample_request sample_fs])"
  unfolding create_video_try_eq
  by (simp add: sample_check sample_request_def sample_audio sample_image sample_world_def
      os_path_exists_def sample_fs_def dimensions_or_default_def)

lemma sample_success:
  "fst (create_video sample_lib (sample_env audio_json_text image_json_text 0 5000) sample_request sample_world)
     = (True, ''Video created successfully'')"
  unfolding create_video_def sample_try encode_eq
  by (simp add: create_video_except_def Let_def sample_env_def output_nonempty_def ffmpeg_cmd_def
     sample_request_def)

lemma sample_empty_events:
  "list_ex transcode_exit_zero (new_events sample_world (snd (create_video sample_lib (sample_env audio_json_text image_json_text 0 0) sample_request sample_world)))"
  "\<not> output_nonempty (files (snd (create_video sample_lib (sample_env audio_json_text image_json_text 0 0) sample_request sample_world))) sample_request"
  unfolding create_video_def sample_try encode_eq create_video_except_snd
  by (simp_all add: Let_def sample_env_def output_nonempty_def ffmpeg_cmd_def
     sample_request_def transcode_exit_zero_def is_transcode_def)

lemma create_video_except_early:
  "early_failure rq (snd (fst (create_video_except lib t))) \<Longrightarrow>
     \<exists>b msg. fst t = Inr (b, msg) \<and> early_failure rq msg"
  by (cases t) (auto simp: create_video_except_def early_failure_def split: sum.splits py_exn.splits)

lemma not_probe_version: "\<not> is_probe (version_event ev f)"
  by (simp add: is_probe_def version_event_def run_event_def)

lemma not_makedirs_run [simp]:
  "\<not> is_makedirs (version_event ev f)"
  "\<not> is_makedirs (audio_probe_event ev rq f)"
  "\<not> is_makedirs (image_probe_event ev rq f)"
  by (simp_all add: is_makedirs_def version_event_def audio_probe_event_def image_probe_event_def
      run_event_def)

lemma ffmpeg_error_msg_not_early: "\<not> early_failure rq (ffmpeg_error_msg p)"
  by (simp add: early_failure_def ffmpeg_error_msg_def)

lemma create_video_try_early:
  "(case fst (create_video_try lib ev rq w) of
      Inl e \<Rightarrow> False | Inr r \<Rightarrow> early_failure rq (snd r)) \<longrightarrow>
   files (snd (create_video_try lib ev rq w)) = files w
   \<and> set (new_events w (snd (create_video_try lib ev rq w)))
       \<subseteq> {version_event ev (files w), audio_probe_event ev rq (files w)}"
  unfolding create_video_try_eq encode_eq
  by (simp add: Let_def ffmpeg_error_msg_not_early
     split: sum.splits option.splits prod.splits run_outcome.splits)
     (simp add: early_failure_def)

lemma bare_check: "fst (check_ffmpeg bare_env w) = Inr False"
  by (simp add: check_ffmpeg_def subprocess_run_check_def bare_env_def Let_def)

lemma str_int_1280: "str_int 1280 = ''1280''"
  by (simp add: str_int_def digits.simps digit_char_def)

lemma str_int_720: "str_int 720 = ''720''"
  by (simp add: str_int_def digits.simps digit_char_def)

lemma normalize_default: "normalize 1280 720 = (1280, 720)"
  by (simp add: normalize_def)

lemma dimensions_or_default_None:
  "fst d = None \<or> snd d = None \<Longrightarrow> dimensions_or_default d = (1280, 720)"
  by (cases d) (auto simp: dimensions_or_default_def split: option.splits)

lemma encode_last_event:
  "(\<exists>e. makedirs ev (os_path_dirname (output_path rq)) (files w) = Inl e)
   \<or> (\<exists>rc. last (events (snd (encode lib ev rq duration dims w))) =
         Run (ffmpeg_cmd lib rq (fst (normalize (fst dims) (snd dims)))
                (snd (normalize (fst dims) (snd dims))) duration) rc)"
  unfolding encode_eq
  by (simp add: Let_def split: sum.splits prod.splits run_outcome.splits)

lemma sample_audio_na:
  "fst (get_audio_duration sample_lib (sample_env na_json_text i rc sz) ''uploads/a.mp3'' w)
     = Inr None"
  by (simp add: get_audio_duration_def get_audio_duration_try_def subprocess_run_check_def
      sample_env_def ok_proc_def ffprobe_audio_cmd_def Let_def py_json_loads_def
      duration_from_probe_def na_json_def sample_lib_def audio_json_text_def
      streams_json_text_def na_json_text_def)

lemma sample_image_none:
  "fst (get_image_dimensions sample_lib (sample_env a no_streams_json_text rc sz) ''uploads/a.png'' w)
     = Inr (None, None)"
  by (simp add: get_image_dimensions_def get_image_dimensions_try_def subprocess_run_check_def
      sample_env_def ok_proc_def ffprobe_audio_cmd_def ffprobe_image_cmd_def
      Let_def py_json_loads_def sample_lib_def
      dimensions_from_probe_def no_streams_json_def audio_json_text_def
      streams_json_text_def na_json_text_def zero_json_text_def image_json_text_def
      two_video_json_text_def no_streams_json_text_def)

lemma sample_exists:
  "os_path_exists (files sample_world) (image_path sample_request)"
  "os_path_exists (files sample_world) (audio_path sample_request)"
  by (simp_all add: os_path_exists_def sample_world_def sample_fs_def sample_request_def)

lemma sample_makedirs: "makedirs (sample_env a i rc sz) d f \<noteq> Inl e"
  by (simp add: sample_env_def)

lemma stream_duration_obj:
  "stream_duration lib (JObj kvs) =
     (case map_of kvs ''duration'' of
        None \<Rightarrow> Inr None
      | Some v \<Rightarrow> bindE (py_float lib v) (\<lambda>d. Inr (Some d)))"
  by (simp add: stream_duration_def split: option.splits)

lemma stream_duration_loop_plain:
  "list_all is_obj ss \<Longrightarrow>
     absent_on_raise (stream_duration_loop lib ss) =
       float_or_absent lib
         (case find (\<lambda>s. field ''duration'' s \<noteq> None) ss of
            None \<Rightarrow> None | Some s \<Rightarrow> field ''duration'' s)"
proof (induction ss)
  case Nil
  then show ?case by (simp add: absent_on_raise_def float_or_absent_def)
next
  case (Cons s ss)
  then obtain kvs where s: "s = JObj kvs" by (cases s) auto
  show ?case
  proof (cases "map_of kvs ''duration''")
    case None
    with Cons s show ?thesis
      by (simp add: stream_duration_obj field_def)
  next
    case (Some v)
    with s show ?thesis
      by (cases "py_float lib v")
         (simp_all add: stream_duration_obj field_def absent_on_raise_def float_or_absent_def)
  qed
qed

lemma duration_from_streams_plain:
  assumes "plain_probe data"
  shows "absent_on_raise (duration_from_streams lib data) =
     float_or_absent lib
       (case find (\<lambda>s. field ''duration'' s \<noteq> None) (streams_of data) of
          None \<Rightarrow> None | Some s \<Rightarrow> field ''duration'' s)"
proof -
  from assms obtain kvs where d: "data = JObj kvs"
    by (cases data) (auto simp: plain_probe_def)
  show ?thesis
  proof (cases "map_of kvs ''streams''")
    case None
    then show ?thesis
      by (simp add: duration_from_streams_def d streams_of_def field_def absent_on_raise_def
          float_or_absent_def)
  next
    case (Some sv)
    with assms d obtain ss where sv: "sv = JArr ss" and all: "list_all is_obj ss"
      by (cases sv) (auto simp: plain_probe_def)
    have so: "streams_of data = ss" by (simp add: streams_of_def field_def d Some sv)
    show ?thesis
    proof (cases ss)
      case Nil
      then show ?thesis
        unfolding so
        by (simp add: duration_from_streams_def d Some sv absent_on_raise_def float_or_absent_def)
    next
      case (Cons a list)
      have "duration_from_streams lib data = stream_duration_loop lib ss"
        by (simp add: duration_from_streams_def d Some sv Cons)
      then show ?thesis
        unfolding so using stream_duration_loop_plain [OF all] by simp
    qed
  qed
qed

lemma duration_from_probe_plain:
  assumes "plain_probe data"
  shows "absent_on_raise (duration_from_probe lib data) = float_or_absent lib (located_duration data)"
proof -
  from assms obtain kvs where d: "data = JObj kvs"
    by (cases data) (auto simp: plain_probe_def)
  show ?thesis
  proof (cases "map_of kvs ''format''")
    case None
    then have "duration_from_probe lib data = duration_from_streams lib data"
      by (simp add: duration_from_probe_def d)
    moreover from None have "located_duration data =
        (case find (\<lambda>s. field ''duration'' s \<noteq> None) (streams_of data) of
             None \<Rightarrow> None | Some s \<Rightarrow> field ''duration'' s)"
      by (simp add: located_duration_def d field_def)
    ultimately show ?thesis
      using duration_from_streams_plain [OF assms] by simp
  next
    case (Some fmt)
    with assms d obtain fkvs where fk: "fmt = JObj fkvs"
      by (cases fmt) (auto simp: plain_probe_def)
    show ?thesis
    proof (cases "map_of fkvs ''duration''")
      case None
      with Some fk have "duration_from_probe lib data = duration_from_streams lib data"
        by (simp add: duration_from_probe_def d)
      moreover from None Some fk have "located_duration data =
          (case find (\<lambda>s. field ''duration'' s \<noteq> None) (streams_of data) of
               None \<Rightarrow> None | Some s \<Rightarrow> field ''duration'' s)"
        by (simp add: located_duration_def d field_def)
      ultimately show ?thesis
        using duration_from_streams_plain [OF assms] by simp
    next
      case (Some v)
      with \<open>map_of kvs ''format'' = Some fmt\<close> fk show ?thesis
        by (cases "py_float lib v")
           (simp_all add: d duration_from_probe_def located_duration_def field_def
              absent_on_raise_def float_or_absent_def)
    qed
  qed
qed

lemma get_audio_duration_outcome:
  "fst (get_audio_duration lib ev p w) =
     Inr (case probe_outcome lib ev (ffprobe_audio_cmd p) (files w) of
            ProbeFailed \<Rightarrow> None
          | ProbeMalformed \<Rightarrow> None
          | ProbeData data \<Rightarrow> absent_on_raise (duration_from_probe lib data))"
  by (simp add: get_audio_duration_def get_audio_duration_try_def subprocess_run_check_def
      probe_outcome_def py_json_loads_def absent_on_raise_def Let_def
      split: sum.splits option.splits py_exn.splits)

lemma bindE_Inr: "bindE m f = Inr y \<Longrightarrow> \<exists>x. m = Inr x \<and> f x = Inr y"
  by (cases m) simp_all

lemma stream_duration_Some:
  "stream_duration lib s = Inr (Some d) \<Longrightarrow>
     \<exists>v. py_getitem s ''duration'' = Inr v \<and> py_float lib v = Inr d"
  unfolding stream_duration_def
  by (auto dest!: bindE_Inr split: if_splits)

lemma stream_duration_loop_Some:
  "stream_duration_loop lib xs = Inr (Some d) \<Longrightarrow>
     \<exists>s \<in> set xs. \<exists>v. py_getitem s ''duration'' = Inr v \<and> py_float lib v = Inr d"
proof (induction xs)
  case Nil
  then show ?case by simp
next
  case (Cons x xs)
  show ?case
  proof (cases "stream_duration lib x")
    case (Inl e)
    with Cons.prems show ?thesis by simp
  next
    case (Inr r)
    show ?thesis
    proof (cases r)
      case None
      with Inr Cons show ?thesis by simp
    next
      case (Some d')
      with Inr Cons.prems have "stream_duration lib x = Inr (Some d)" by simp
      from stream_duration_Some [OF this] show ?thesis by auto
    qed
  qed
qed

lemma duration_from_streams_Some:
  assumes "duration_from_streams lib data = Inr (Some d)"
  shows "\<exists>obj v. duration_holder data obj \<and> py_getitem obj ''duration'' = Inr v \<and> py_float lib v = Inr d"
proof -
  from assms obtain ss xs where ss: "py_getitem data ''streams'' = Inr ss"
    and xs: "py_iter ss = Inr xs" and l: "stream_duration_loop lib xs = Inr (Some d)"
    unfolding duration_from_streams_def
    by (auto dest!: bindE_Inr split: if_splits)
  from stream_duration_loop_Some [OF l] ss xs show ?thesis
    unfolding duration_holder_def by blast
qed

lemma duration_from_probe_Some:
  assumes "duration_from_probe lib data = Inr (Some d)"
  shows "\<exists>obj v. duration_holder data obj \<and> py_getitem obj ''duration'' = Inr v \<and> py_float lib v = Inr d"
proof -
  from assms have "(\<exists>fmt v. py_getitem data ''format'' = Inr fmt \<and> py_getitem fmt ''duration'' = Inr v
        \<and> py_float lib v = Inr d)
      \<or> duration_from_streams lib data = Inr (Some d)"
    unfolding duration_from_probe_def
    by (auto dest!: bindE_Inr split: if_splits)
  then show ?thesis
    using duration_from_streams_Some [of lib data d]
    unfolding duration_holder_def by blast
qed

lemma sample_loads:
  "json_loads sample_lib audio_json_text = Some audio_json"
  "json_loads sample_lib streams_json_text = Some streams_json"
  "json_loads sample_lib na_json_text = Some na_json"
  "json_loads sample_lib zero_json_text = Some zero_json"
  "json_loads sample_lib image_json_text = Some image_json"
  "json_loads sample_lib two_video_json_text = Some two_video_json"
  "json_loads sample_lib no_streams_json_text = Some no_streams_json"
  "json_loads sample_lib garbage_text = None"
  by (simp_all add: sample_lib_def audio_json_text_def streams_json_text_def na_json_text_def
      zero_json_text_def image_json_text_def two_video_json_text_def no_streams_json_text_def
      garbage_text_def)

lemma sample_audio_outcome:
  "probe_outcome sample_lib (sample_env a i rc sz) (ffprobe_audio_cmd ''uploads/a.mp3'') f =
     (case json_loads sample_lib a of None \<Rightarrow> ProbeMalformed | Some data \<Rightarrow> ProbeData data)"
  by (simp add: probe_outcome_def sample_env_def ok_proc_def ffprobe_audio_cmd_def)

lemma sample_image_outcome:
  "probe_outcome sample_lib (sample_env a i rc sz) (ffprobe_image_cmd ''uploads/a.png'') f =
     (case json_loads sample_lib i of None \<Rightarrow> ProbeMalformed | Some data \<Rightarrow> ProbeData data)"
  by (simp add: probe_outcome_def sample_env_def ok_proc_def ffprobe_audio_cmd_def
      ffprobe_image_cmd_def)

lemma bare_outcome: "probe_outcome lib bare_env cmd f = ProbeFailed"
  by (simp add: probe_outcome_def bare_env_def)

lemma sample_located:
  "float_or_absent sample_lib (located_duration audio_json) = Some (Fin 12.5)"
  "float_or_absent sample_lib (located_duration streams_json) = Some (Fin 12.5)"
  "located_duration na_json = Some (JStr ''N/A'')"
  "float_or_absent sample_lib (located_duration na_json) = None"
  "float_or_absent sample_lib (located_duration zero_json) = Some (Fin 0)"
  by (simp_all add: float_or_absent_def located_duration_def field_def streams_of_def
      audio_json_def streams_json_def na_json_def zero_json_def sample_lib_def)

lemma sample_plain:
  "plain_probe audio_json" "plain_probe streams_json" "plain_probe na_json" "plain_probe zero_json"
  by (simp_all add: plain_probe_def audio_json_def streams_json_def na_json_def zero_json_def)

lemma sample_audio_zero:
  "fst (get_audio_duration sample_lib (sample_env zero_json_text i rc sz) ''uploads/a.mp3'' w)
     = Inr (Some (Fin 0))"
  unfolding get_audio_duration_outcome
  by (simp add: sample_audio_outcome sample_loads duration_from_probe_plain sample_plain
      sample_located)

lemma py_int_of_field:
  "int_or_absent (map_of kvs k) \<Longrightarrow>
     py_int lib (case map_of kvs k of None \<Rightarrow> JInt 0 | Some x \<Rightarrow> x) = Inr (int_field k (JObj kvs))"
  by (auto simp: int_or_absent_def int_field_def field_def split: option.splits json.splits)

lemma stream_dimensions_plain:
  assumes "plain_stream s"
  shows "stream_dimensions lib s =
     Inr (if reports_dimensions s
          then Some (int_field ''width'' s, int_field ''height'' s) else None)"
proof -
  from assms obtain kvs where s: "s = JObj kvs"
    by (cases s) (auto simp: plain_stream_def)
  from assms s have w: "int_or_absent (map_of kvs ''width'')"
    and h: "int_or_absent (map_of kvs ''height'')"
    by (simp_all add: plain_stream_def field_def)
  show ?thesis
  proof (cases "map_of kvs ''codec_type'' = Some (JStr ''video'')")
    case True
    then show ?thesis
      by (simp add: stream_dimensions_def s py_int_of_field [OF w] py_int_of_field [OF h]
          reports_dimensions_def is_video_def field_def)
  next
    case False
    then show ?thesis
      by (auto simp: stream_dimensions_def s reports_dimensions_def is_video_def field_def
          split: option.splits)
  qed
qed

lemma stream_dimensions_loop_plain:
  "list_all plain_stream ss \<Longrightarrow>
     pair_or_absent (stream_dimensions_loop lib ss) = dimensions_of (find reports_dimensions ss)"
proof (induction ss)
  case Nil
  then show ?case by (simp add: pair_or_absent_def dimensions_of_def)
next
  case (Cons s ss)
  then have p: "plain_stream s" by simp
  show ?case
  proof (cases "reports_dimensions s")
    case True
    then show ?thesis
      by (simp add: stream_dimensions_plain [OF p] pair_or_absent_def dimensions_of_def)
  next
    case False
    with Cons show ?thesis
      by (simp add: stream_dimensions_plain [OF p])
  qed
qed

lemma dimensions_from_probe_plain:
  assumes "plain_image_probe data"
  shows "pair_or_absent (dimensions_from_probe lib data) =
           dimensions_of (find reports_dimensions (streams_of data))"
proof -
  from assms obtain kvs where d: "data = JObj kvs"
    by (cases data) (auto simp: plain_image_probe_def)
  show ?thesis
  proof (cases "map_of kvs ''streams''")
    case None
    then show ?thesis
      by (simp add: dimensions_from_probe_def d streams_of_def field_def pair_or_absent_def
          dimensions_of_def)
  next
    case (Some sv)
    with assms d obtain ss where sv: "sv = JArr ss" and all: "list_all plain_stream ss"
      by (cases sv) (auto simp: plain_image_probe_def)
    have so: "streams_of data = ss" by (simp add: streams_of_def field_def d Some sv)
    have "dimensions_from_probe lib data = stream_dimensions_loop lib ss"
      by (simp add: dimensions_from_probe_def d Some sv)
    then show ?thesis
      unfolding so using stream_dimensions_loop_plain [OF all] by simp
  qed
qed

lemma get_image_dimensions_outcome:
  "fst (get_image_dimensions lib ev p w) =
     Inr (case probe_outcome lib ev (ffprobe_image_cmd p) (files w) of
            ProbeFailed \<Rightarrow> (None, None)
          | ProbeMalformed \<Rightarrow> (None, None)
          | ProbeData data \<Rightarrow> pair_or_absent (dimensions_from_probe lib data))"
  by (simp add: get_image_dimensions_def get_image_dimensions_try_def subprocess_run_check_def
      probe_outcome_def py_json_loads_def pair_or_absent_def Let_def
      split: sum.splits option.splits py_exn.splits prod.splits)

lemma sample_plain_image:
  "plain_image_probe image_json" "plain_image_probe two_video_json"
  "plain_image_probe no_streams_json"
  by (simp_all add: plain_image_probe_def plain_stream_def int_or_absent_def field_def
      image_json_def two_video_json_def no_streams_json_def)

lemma sample_found:
  "dimensions_of (find reports_dimensions (streams_of image_json)) = (Some 1281, Some 721)"
  "dimensions_of (find reports_dimensions (streams_of two_video_json)) = (Some 640, Some 480)"
  "dimensions_of (find reports_dimensions (streams_of no_streams_json)) = (None, None)"
  by (simp_all add: dimensions_of_def reports_dimensions_def is_video_def int_field_def
      field_def streams_of_def image_json_def two_video_json_def no_streams_json_def)

lemma sample_image_two:
  "fst (get_image_dimensions sample_lib (sample_env a two_video_json_text rc sz) ''uploads/a.png'' w)
     = Inr (Some 640, Some 480)"
  unfolding get_image_dimensions_outcome
  by (simp add: sample_image_outcome sample_loads dimensions_from_probe_plain sample_plain_image
      sample_found)

lemma find_name_Some:
  "find (\<lambda>e. name e = fn) d = Some e0 \<Longrightarrow> e0 \<in> set d \<and> name e0 = fn"
  by (induction d) (auto split: if_splits)

lemma find_name_None:
  "find (\<lambda>e. name e = fn) d = None \<Longrightarrow> fn \<notin> name ` set d"
  by (induction d) (auto split: if_splits)

lemma distinct_name_unique:
  "distinct (map name d) \<Longrightarrow> e \<in> set d \<Longrightarrow> e' \<in> set d \<Longrightarrow> name e = name e' \<Longrightarrow> e = e'"
  by (induction d) (auto simp: image_iff)

lemma distinct_filter_name:
  "distinct (map name d) \<Longrightarrow> distinct (map name (filter P d))"
  by (induction d) (auto simp: image_iff)

lemma cleanup_loop_safe:
  "distinct (map name d) \<Longrightarrow>
     set (snd (cleanup_loop now thr fns d)) \<subseteq> set d
     \<and> (\<forall>e \<in> set d. \<not> stale now thr e \<longrightarrow> e \<in> set (snd (cleanup_loop now thr fns d)))"
proof (induction fns arbitrary: d)
  case Nil
  then show ?case by simp
next
  case (Cons fn fns)
  show ?case
  proof (cases "fn = ''.gitkeep''")
    case True
    with Cons show ?thesis by simp
  next
    case False
    show ?thesis
    proof (cases "find (\<lambda>e. name e = fn) d")
      case None
      with False show ?thesis by (simp add: os_path_getctime_def)
    next
      case (Some e0)
      from find_name_Some [OF Some] have e0: "e0 \<in> set d" "name e0 = fn" by simp_all
      show ?thesis
      proof (cases "stat_ctime e0")
        case (Inl x)
        with False Some show ?thesis by (simp add: os_path_getctime_def)
      next
        case (Inr c)
        show ?thesis
        proof (cases "c < now - thr")
          case old: True
          show ?thesis
          proof (cases "remove_raises e0")
            case (Some x)
            with False \<open>find (\<lambda>e. name e = fn) d = Some e0\<close> Inr old show ?thesis
              by (simp add: os_path_getctime_def os_remove_def)
          next
            case None
            let ?d' = "filter (\<lambda>e. name e \<noteq> fn) d"
            have l: "cleanup_loop now thr (fn # fns) d = cleanup_loop now thr fns ?d'"
              using False \<open>find (\<lambda>e. name e = fn) d = Some e0\<close> Inr old None
              by (simp add: os_path_getctime_def os_remove_def)
            have dd: "distinct (map name ?d')"
              using Cons.prems by (rule distinct_filter_name)
            from Cons.IH [OF dd]
            have s: "set (snd (cleanup_loop now thr fns ?d')) \<subseteq> set ?d'"
              and k: "\<forall>e \<in> set ?d'. \<not> stale now thr e \<longrightarrow>
                  e \<in> set (snd (cleanup_loop now thr fns ?d'))"
              by simp_all
            have st0: "stale now thr e0" using False old Inr e0 by (simp add: stale_def)
            have "\<And>e. e \<in> set d \<Longrightarrow> \<not> stale now thr e \<Longrightarrow> e \<in> set ?d'"
            proof -
              fix e assume e: "e \<in> set d" and ns: "\<not> stale now thr e"
              have "name e \<noteq> fn"
              proof
                assume "name e = fn"
                with e e0 Cons.prems have "e = e0" using distinct_name_unique by metis
                with ns st0 show False by simp
              qed
              with e show "e \<in> set ?d'" by simp
            qed
            with s k show ?thesis unfolding l by auto
          qed
        next
          case False
          with \<open>fn \<noteq> ''.gitkeep''\<close> Some Inr Cons show ?thesis
            by (simp add: os_path_getctime_def)
        qed
      qed
    qed
  qed
qed

lemma cleanup_loop_exact:
  "distinct (map name d) \<Longrightarrow> distinct fns \<Longrightarrow> set fns \<subseteq> name ` set d \<Longrightarrow>
   \<forall>e \<in> set d. name e \<noteq> ''.gitkeep'' \<longrightarrow>
      (\<exists>c. stat_ctime e = Inr c) \<and> (stale now thr e \<longrightarrow> remove_raises e = None) \<Longrightarrow>
     cleanup_loop now thr fns d =
       (Inr (), filter (\<lambda>e. \<not> (name e \<in> set fns \<and> stale now thr e)) d)"
proof (induction fns arbitrary: d)
  case Nil
  then show ?case by simp
next
  case (Cons fn fns)
  from Cons.prems have dfns: "distinct fns" and fnotin: "fn \<notin> set fns"
    and sub: "set fns \<subseteq> name ` set d" and fin: "fn \<in> name ` set d"
    by auto
  show ?case
  proof (cases "fn = ''.gitkeep''")
    case True
    have "filter (\<lambda>e. \<not> (name e \<in> set (fn # fns) \<and> stale now thr e)) d
        = filter (\<lambda>e. \<not> (name e \<in> set fns \<and> stale now thr e)) d"
      using True by (intro filter_cong) (auto simp: stale_def)
    with True Cons.IH [OF Cons.prems(1) dfns sub Cons.prems(4)] show ?thesis by simp
  next
    case False
    from fin obtain e0 where f: "find (\<lambda>e. name e = fn) d = Some e0"
      using find_name_None [of fn d] by (cases "find (\<lambda>e. name e = fn) d") auto
    from find_name_Some [OF f] have e0: "e0 \<in> set d" "name e0 = fn" by simp_all
    have uniq: "\<And>e. e \<in> set d \<Longrightarrow> name e = fn \<Longrightarrow> e = e0"
      using distinct_name_unique [OF Cons.prems(1) _ e0(1)] e0(2) by simp
    from Cons.prems(4) e0 False obtain c where c: "stat_ctime e0 = Inr c"
      and rm: "stale now thr e0 \<longrightarrow> remove_raises e0 = None"
      by blast
    show ?thesis
    proof (cases "c < now - thr")
      case old: True
      then have st0: "stale now thr e0" using False e0 c by (simp add: stale_def)
      with rm have nd: "remove_raises e0 = None" by blast
      let ?d' = "filter (\<lambda>e. name e \<noteq> fn) d"
      have l: "cleanup_loop now thr (fn # fns) d = cleanup_loop now thr fns ?d'"
        using False f old nd c by (simp add: os_path_getctime_def os_remove_def)
      have dd: "distinct (map name ?d')"
        using Cons.prems(1) by (rule distinct_filter_name)
      have sub': "set fns \<subseteq> name ` set ?d'"
        using sub fnotin by auto
      have nsd: "\<forall>e \<in> set ?d'. name e \<noteq> ''.gitkeep'' \<longrightarrow>
          (\<exists>c. stat_ctime e = Inr c) \<and> (stale now thr e \<longrightarrow> remove_raises e = None)"
        using Cons.prems(4) by simp
      have "filter (\<lambda>e. \<not> (name e \<in> set fns \<and> stale now thr e)) ?d'
          = filter (\<lambda>e. \<not> (name e \<in> set (fn # fns) \<and> stale now thr e)) d"
        unfolding filter_filter
        using uniq st0 by (intro filter_cong) auto
      with Cons.IH [OF dd dfns sub' nsd] show ?thesis unfolding l by simp
    next
      case young: False
      then have ns0: "\<not> stale now thr e0" using c by (simp add: stale_def)
      have l: "cleanup_loop now thr (fn # fns) d = cleanup_loop now thr fns d"
        using False f young c by (simp add: os_path_getctime_def)
      have "filter (\<lambda>e. \<not> (name e \<in> set fns \<and> stale now thr e)) d
          = filter (\<lambda>e. \<not> (name e \<in> set (fn # fns) \<and> stale now thr e)) d"
        using uniq ns0 by (intro filter_cong) auto
      with Cons.IH [OF Cons.prems(1) dfns sub Cons.prems(4)] show ?thesis unfolding l by simp
    qed
  qed
qed

lemma calls_succeed_elim:
  assumes "calls_succeed now e" and "name e \<noteq> ''.gitkeep''"
  shows "(\<exists>c. stat_ctime e = Inr c) \<and> (stale now 3600 e \<longrightarrow> remove_raises e = None)"
proof (cases "stat_ctime e")
  case (Inl x)
  with assms show ?thesis by (simp add: calls_succeed_def)
next
  case (Inr c)
  with assms show ?thesis by (cases "stale now 3600 e") (simp_all add: calls_succeed_def)
qed

lemma cleanup_loop_listdir:
  assumes "distinct (map name d)" and "sweepable now d"
  shows "cleanup_loop now 3600 (os_listdir d) d = (Inr (), swept now d)"
proof -
  have h: "\<forall>e \<in> set d. name e \<noteq> ''.gitkeep'' \<longrightarrow>
      (\<exists>c. stat_ctime e = Inr c) \<and> (stale now 3600 e \<longrightarrow> remove_raises e = None)"
    using assms(2) calls_succeed_elim [of now]
    unfolding sweepable_def list_all_iff by blast
  have "cleanup_loop now 3600 (map name d) d =
      (Inr (), filter (\<lambda>e. \<not> (name e \<in> set (map name d) \<and> stale now 3600 e)) d)"
    using assms(1) h by (intro cleanup_loop_exact) auto
  moreover have "filter (\<lambda>e. \<not> (name e \<in> set (map name d) \<and> stale now 3600 e)) d = swept now d"
    unfolding swept_def by (intro filter_cong) auto
  ultimately show ?thesis by (simp add: os_listdir_def)
qed

lemma cleanup_files_upload:
  "upload_folder (snd (cleanup_files lib now st)) =
     snd (cleanup_loop now 3600 (os_listdir (upload_folder st)) (upload_folder st))"
  by (simp add: cleanup_files_def Let_def split: prod.splits sum.splits)

lemma cleanup_files_output:
  "output_folder (snd (cleanup_files lib now st)) =
     (case fst (cleanup_loop now 3600 (os_listdir (upload_folder st)) (upload_folder st)) of
        Inl e \<Rightarrow> output_folder st
      | Inr x \<Rightarrow> snd (cleanup_loop now 3600 (os_listdir (output_folder st)) (output_folder st)))"
  by (simp add: cleanup_files_def Let_def split: prod.splits sum.splits)

lemma tidy_facts:
  "distinct (map name (upload_folder tidy_store))"
  "distinct (map name (output_folder tidy_store))"
  "sweepable 10000 (upload_folder tidy_store)"
  "sweepable 10000 (output_folder tidy_store)"
  "swept 10000 (upload_folder tidy_store) = [gitkeep, new_mp3]"
  "swept 10000 (output_folder tidy_store) = [gitkeep]"
  by (simp_all add: tidy_store_def gitkeep_def old_png_def new_mp3_def old_video_def
      sweepable_def calls_succeed_def swept_def stale_def)

lemma sample_completes:
  "completes sample_lib (sample_env audio_json_text image_json_text rc sz) sample_request sample_world"
  unfolding completes_def sample_try encode_eq
  by (simp add: Let_def sample_env_def)

lemma garbled_try:
  "create_video_try sample_lib garbled_env sample_request sample_world
   = encode sample_lib garbled_env sample_request (Fin 12.5) (1281, 721)
       (add_events sample_world
          [version_event garbled_env sample_fs,
           audio_probe_event garbled_env sample_request sample_fs,
           image_probe_event garbled_env sample_request sample_fs])"
proof -
  let ?ev = "sample_env audio_json_text image_json_text 0 5000"
  have q: "run_query garbled_env = run_query ?ev"
    by (simp add: garbled_env_def)
  have c: "fst (check_ffmpeg garbled_env sample_world) = fst (check_ffmpeg ?ev sample_world)"
    by (simp add: check_ffmpeg_def subprocess_run_check_def q)
  have a: "fst (get_audio_duration sample_lib garbled_env (audio_path sample_request) sample_world)
      = fst (get_audio_duration sample_lib ?ev (audio_path sample_request) sample_world)"
    by (simp add: get_audio_duration_def get_audio_duration_try_def subprocess_run_check_def q)
  have i: "fst (get_image_dimensions sample_lib garbled_env (image_path sample_request) sample_world)
      = fst (get_image_dimensions sample_lib ?ev (image_path sample_request) sample_world)"
    by (simp add: get_image_dimensions_def get_image_dimensions_try_def subprocess_run_check_def q)
  have a': "fst (get_audio_duration sample_lib ?ev (audio_path sample_request) sample_world)
      = Inr (Some (Fin 12.5))"
    by (simp add: sample_request_def sample_audio)
  have i': "fst (get_image_dimensions sample_lib ?ev (image_path sample_request) sample_world)
      = Inr (Some 1281, Some 721)"
    by (simp add: sample_request_def sample_image)
  have fw: "files sample_world = sample_fs" by (simp add: sample_world_def)
  have c': "fst (check_ffmpeg garbled_env sample_world) = Inr True"
    by (simp only: c sample_check)
  have a'': "fst (get_audio_duration sample_lib garbled_env (audio_path sample_request) sample_world)
      = Inr (Some (Fin 12.5))"
    by (simp only: a a')
  have i'': "fst (get_image_dimensions sample_lib garbled_env (image_path sample_request) sample_world)
      = Inr (Some 1281, Some 721)"
    by (simp only: i i')
  show ?thesis
    unfolding create_video_try_eq
    by (simp add: c' a'' i'' sample_exists [unfolded fw] dimensions_or_default_def fw)
qed

lemma garbled_run:
  "list_ex transcode_exit_zero (new_events sample_world
     (snd (create_video sample_lib garbled_env sample_request sample_world)))"
  "output_nonempty (files (snd (create_video sample_lib garbled_env sample_request sample_world)))
     sample_request"
  "\<not> fst (fst (create_video sample_lib garbled_env sample_request sample_world))"
  unfolding create_video_def garbled_try encode_eq create_video_except_snd create_video_except_ok
  by (simp_all add: Let_def garbled_env_def sample_env_def output_nonempty_def ffmpeg_cmd_def
     sample_request_def transcode_exit_zero_def is_transcode_def)

section \<open>The claims\<close>

subsection \<open>C7: normalisation of the dimensions\<close>

text \<open>
  C7. For all integers \<open>width\<close> and \<open>height\<close>, \<open>normalize\<close> rounds each down
  to the nearest even number, subtracting 1 exactly when it is odd: each
  component of the result is even, is at most the input and is less than 2
  below it. \<open>normalize 1281 721 = (1280, 720)\<close>, \<open>normalize 1280 720 = (1280, 720)\<close>,
  and normalising a normalised pair changes nothing. Being a function of its
  two arguments, the step is deterministic.
\<close>

theorem normalize_rounds_down_to_even:
  "normalize width height =
     (if even width then width else width - 1, if even height then height else height - 1)
   \<and> even (fst (normalize width height)) \<and> even (snd (normalize width height))
   \<and> fst (normalize width height) \<le> width \<and> width < fst (normalize width height) + 2
   \<and> snd (normalize width height) \<le> height \<and> height < snd (normalize width height) + 2
   \<and> normalize 1281 721 = (1280, 720)
   \<and> normalize 1280 720 = (1280, 720)
   \<and> normalize (fst (normalize width height)) (snd (normalize width height))
       = normalize width height"
proof -
  have m: "\<And>x::int. x mod 2 = (if even x then 0 else 1)"
    by (simp add: even_iff_mod_2_eq_zero odd_iff_mod_2_eq_one)
  show ?thesis
    unfolding normalize_def by (simp add: m)
qed

subsection \<open>C1: when create_video reports success\<close>

text \<open>
  C1, as the code has it. For every request, \<open>create_video\<close> returns
  success exactly when no exception leaves its \<^verbatim>\<open>try\<close> block (so
  \<^verbatim>\<open>subprocess.run\<close> has returned the completed encoding process), the
  encoding run exited with code 0, and in the file system the call leaves
  behind the output path exists with a size greater than zero. In
  particular a success guarantees that the output exists and is not empty.
  When no exception is raised, the encoding exited with 0 and the output is
  missing or empty, the result is the failure
  \<^verbatim>\<open>Output file was not created or is empty\<close>.
\<close>

theorem create_video_success_when_returned:
  "(fst (fst (create_video lib ev rq w)) \<longleftrightarrow>
      completes lib ev rq w
      \<and> list_ex transcode_exit_zero (new_events w (snd (create_video lib ev rq w)))
      \<and> output_nonempty (files (snd (create_video lib ev rq w))) rq)
   \<and> (completes lib ev rq w
      \<and> list_ex transcode_exit_zero (new_events w (snd (create_video lib ev rq w)))
      \<and> \<not> output_nonempty (files (snd (create_video lib ev rq w))) rq
      \<longrightarrow> fst (create_video lib ev rq w) = (False, ''Output file was not created or is empty''))"
  unfolding create_video_def create_video_except_snd create_video_except_ok
  using create_video_try_success [of lib ev rq w] create_video_try_empty [of lib ev rq w]
    create_video_except_Inr [of "create_video_try lib ev rq w" _ lib]
  by blast

theorem create_video_success_when_returned_witness:
  "completes sample_lib (sample_env audio_json_text image_json_text 0 5000)
     sample_request sample_world
   \<and> fst (fst (create_video sample_lib (sample_env audio_json_text image_json_text 0 5000)
        sample_request sample_world))
   \<and> completes sample_lib (sample_env audio_json_text image_json_text 0 0)
        sample_request sample_world
   \<and> list_ex transcode_exit_zero (new_events sample_world
        (snd (create_video sample_lib (sample_env audio_json_text image_json_text 0 0)
           sample_request sample_world)))
   \<and> \<not> output_nonempty (files
        (snd (create_video sample_lib (sample_env audio_json_text image_json_text 0 0)
           sample_request sample_world))) sample_request
   \<and> fst (create_video sample_lib (sample_env audio_json_text image_json_text 0 0)
        sample_request sample_world) = (False, ''Output file was not created or is empty'')"
  using create_video_success_when_returned
    [of sample_lib "sample_env audio_json_text image_json_text 0 0" sample_request sample_world]
    sample_empty_events sample_success
    sample_completes [of 0 0] sample_completes [of 0 5000]
  by simp

text \<open>
  The claim as stated fails: \<^verbatim>\<open>subprocess.run\<close> is called with \<^verbatim>\<open>text=True\<close>
  (line 157) and raises UnicodeDecodeError when the encoder prints bytes
  that are not decodable text. The encoder has then run, exited with 0 and
  written a non-empty output file, yet the handler of line 178 returns a
  failure.
\<close>

theorem undecodable_output_counterexample:
  "list_ex transcode_exit_zero (new_events sample_world
     (snd (create_video sample_lib garbled_env sample_request sample_world)))
   \<and> output_nonempty (files (snd (create_video sample_lib garbled_env sample_request sample_world)))
        sample_request
   \<and> \<not> fst (fst (create_video sample_lib garbled_env sample_request sample_world))"
  using garbled_run by simp

subsection \<open>C5: a missing tool stops everything\<close>

text \<open>
  C5. If \<open>check_ffmpeg\<close> returns \<^verbatim>\<open>False\<close>, \<open>create_video\<close> returns the
  failure \<^verbatim>\<open>FFmpeg is not installed or not available\<close>, and the only thing
  the call has done is the version check: no probe and no encoding was run.
\<close>

theorem tool_missing_short_circuits:
  assumes "fst (check_ffmpeg ev w) = Inr False"
  shows "create_video lib ev rq w =
           ((False, ''FFmpeg is not installed or not available''),
            add_events w [version_event ev (files w)])
         \<and> \<not> is_probe (version_event ev (files w))
         \<and> \<not> is_transcode (version_event ev (files w))"
  using assms unfolding create_video_def create_video_try_eq
  by (simp add: create_video_except_def not_probe_version not_transcode_version)

theorem tool_missing_short_circuits_witness:
  "fst (check_ffmpeg bare_env sample_world) = Inr False
   \<and> create_video sample_lib bare_env sample_request sample_world =
       ((False, ''FFmpeg is not installed or not available''),
        \<lparr>files = sample_fs, events = [Run [''ffmpeg'', ''-version''] None]\<rparr>)"
proof -
  have h: "fst (check_ffmpeg bare_env sample_world) = Inr False" by (rule bare_check)
  have e: "add_events sample_world [version_event bare_env (files sample_world)]
      = \<lparr>files = sample_fs, events = [Run [''ffmpeg'', ''-version''] None]\<rparr>"
    by (simp add: add_events_def version_event_def run_event_def exit_code_def
        bare_env_def sample_world_def)
  show ?thesis
    using tool_missing_short_circuits [OF h, where lib = sample_lib and rq = sample_request] h
    by (simp only: e simp_thms)
qed

subsection \<open>C6: missing input files\<close>

text \<open>
  C6. If the tool is available and the image path or the audio path does not
  exist, \<open>create_video\<close> returns a failure whose message names the missing
  path. The image path is checked first. The only process the call has
  started is the version check, so the encoding was not run.
\<close>

theorem input_not_found:
  assumes "fst (check_ffmpeg ev w) = Inr True"
    and "\<not> os_path_exists (files w) (image_path rq) \<or> \<not> os_path_exists (files w) (audio_path rq)"
  shows "create_video lib ev rq w =
           ((False,
             if \<not> os_path_exists (files w) (image_path rq)
             then ''Image file not found: '' @ image_path rq
             else ''Audio file not found: '' @ audio_path rq),
            add_events w [version_event ev (files w)])
         \<and> version_event ev (files w) = Run [''ffmpeg'', ''-version''] (Some 0)
         \<and> \<not> is_transcode (version_event ev (files w))"
  using assms check_ffmpeg_True_exit [OF assms(1)]
  unfolding create_video_def create_video_try_eq
  by (auto simp: create_video_except_def is_transcode_def version_event_def run_event_def)

theorem input_not_found_witness:
  "fst (check_ffmpeg (sample_env audio_json_text image_json_text 0 5000) sample_world) = Inr True
   \<and> \<not> os_path_exists (files sample_world) (image_path no_image_request)
   \<and> create_video sample_lib (sample_env audio_json_text image_json_text 0 5000)
        no_image_request sample_world =
       ((False, ''Image file not found: uploads/missing.png''),
        \<lparr>files = sample_fs, events = [Run [''ffmpeg'', ''-version''] (Some 0)]\<rparr>)
   \<and> os_path_exists (files sample_world) (image_path no_audio_request)
   \<and> \<not> os_path_exists (files sample_world) (audio_path no_audio_request)
   \<and> create_video sample_lib (sample_env audio_json_text image_json_text 0 5000)
        no_audio_request sample_world =
       ((False, ''Audio file not found: uploads/missing.mp3''),
        \<lparr>files = sample_fs, events = [Run [''ffmpeg'', ''-version''] (Some 0)]\<rparr>)"
proof -
  let ?ev = "sample_env audio_json_text image_json_text 0 5000"
  have c: "fst (check_ffmpeg ?ev sample_world) = Inr True" by (rule sample_check)
  have i: "\<not> os_path_exists (files sample_world) (image_path no_image_request)"
    by (simp add: os_path_exists_def sample_world_def sample_fs_def no_image_request_def)
  have a: "\<not> os_path_exists (files sample_world) (audio_path no_audio_request)"
    by (simp add: os_path_exists_def sample_world_def sample_fs_def no_audio_request_def)
  have ai: "os_path_exists (files sample_world) (image_path no_audio_request)"
    by (simp add: os_path_exists_def sample_world_def sample_fs_def no_audio_request_def
        sample_request_def)
  from i have i': "\<not> os_path_exists (files sample_world) (image_path no_image_request)
      \<or> \<not> os_path_exists (files sample_world) (audio_path no_image_request)" by simp
  from a have a': "\<not> os_path_exists (files sample_world) (image_path no_audio_request)
      \<or> \<not> os_path_exists (files sample_world) (audio_path no_audio_request)" by simp
  have n1: "''Image file not found: '' @ image_path no_image_request
      = ''Image file not found: uploads/missing.png''"
    by (simp add: no_image_request_def)
  have n2: "''Audio file not found: '' @ audio_path no_audio_request
      = ''Audio file not found: uploads/missing.mp3''"
    by (simp add: no_audio_request_def)
  have w: "add_events sample_world [Run [''ffmpeg'', ''-version''] (Some 0)]
      = \<lparr>files = sample_fs, events = [Run [''ffmpeg'', ''-version''] (Some 0)]\<rparr>"
    by (simp add: add_events_def sample_world_def)
  show ?thesis
    using input_not_found [OF c i', where lib = sample_lib] input_not_found [OF c a', where lib = sample_lib]
      c i a ai
    by (simp only: n1 n2 w if_True if_False simp_thms)
qed

subsection \<open>C2: a failed duration probe is fatal, a failed dimension probe is not\<close>

text \<open>
  C2. Let the tool be available and both input paths exist. If
  \<open>get_audio_duration\<close> returns \<^verbatim>\<open>None\<close>, \<open>create_video\<close> returns the failure
  \<^verbatim>\<open>Could not determine audio duration\<close> having run only the version check
  and the audio probe, so no encoding. If it returns a duration and
  \<open>get_image_dimensions\<close> returns \<^verbatim>\<open>None\<close> for the width or the height,
  \<open>create_video\<close> goes on exactly as lines 129-171 do from the dimensions
  1280 and 720: unless the directory creation raises, the last thing the
  call runs is the encoding command built for 1280 by 720, whose filter
  argument is \<^verbatim>\<open>scale=1280:720\<close>.
\<close>

theorem probe_failures:
  assumes "fst (check_ffmpeg ev w) = Inr True"
    and "os_path_exists (files w) (image_path rq)"
    and "os_path_exists (files w) (audio_path rq)"
  shows "(fst (get_audio_duration lib ev (audio_path rq) w) = Inr None \<longrightarrow>
            create_video lib ev rq w =
              ((False, ''Could not determine audio duration''),
               add_events w [version_event ev (files w), audio_probe_event ev rq (files w)])
            \<and> \<not> is_transcode (version_event ev (files w))
            \<and> \<not> is_transcode (audio_probe_event ev rq (files w)))
       \<and> (fst (get_audio_duration lib ev (audio_path rq) w) = Inr (Some duration)
          \<and> fst (get_image_dimensions lib ev (image_path rq) w) = Inr d
          \<and> (fst d = None \<or> snd d = None) \<longrightarrow>
            create_video lib ev rq w =
              create_video_except lib
                (encode lib ev rq duration (1280, 720)
                   (add_events w [version_event ev (files w), audio_probe_event ev rq (files w),
                      image_probe_event ev rq (files w)]))
            \<and> ((\<exists>e. makedirs ev (os_path_dirname (output_path rq)) (files w) = Inl e)
               \<or> (\<exists>rc. last (events (snd (create_video lib ev rq w))) =
                     Run (ffmpeg_cmd lib rq 1280 720 duration) rc))
            \<and> ffmpeg_cmd lib rq 1280 720 duration ! 17 = ''scale=1280:720'')"
proof (intro conjI impI)
  assume a: "fst (get_audio_duration lib ev (audio_path rq) w) = Inr None"
  show "create_video lib ev rq w =
      ((False, ''Could not determine audio duration''),
       add_events w [version_event ev (files w), audio_probe_event ev rq (files w)])"
    unfolding create_video_def create_video_try_eq
    by (simp add: assms a create_video_except_def)
next
  show "\<not> is_transcode (version_event ev (files w))" by (rule not_transcode_version)
next
  show "\<not> is_transcode (audio_probe_event ev rq (files w))" by (rule not_transcode_audio)
next
  assume h: "fst (get_audio_duration lib ev (audio_path rq) w) = Inr (Some duration)
          \<and> fst (get_image_dimensions lib ev (image_path rq) w) = Inr d
          \<and> (fst d = None \<or> snd d = None)"
  then have dd: "dimensions_or_default d = (1280, 720)"
    by (simp add: dimensions_or_default_None)
  show eq: "create_video lib ev rq w =
      create_video_except lib
        (encode lib ev rq duration (1280, 720)
           (add_events w [version_event ev (files w), audio_probe_event ev rq (files w),
              image_probe_event ev rq (files w)]))"
    unfolding create_video_def create_video_try_eq
    by (simp add: assms h dd)
  show "(\<exists>e. makedirs ev (os_path_dirname (output_path rq)) (files w) = Inl e)
      \<or> (\<exists>rc. last (events (snd (create_video lib ev rq w))) =
            Run (ffmpeg_cmd lib rq 1280 720 duration) rc)"
    using encode_last_event [of ev rq "add_events w [version_event ev (files w),
        audio_probe_event ev rq (files w), image_probe_event ev rq (files w)]" lib duration "(1280, 720)"]
    unfolding eq create_video_except_snd
    by (simp add: normalize_default)
next
  show "ffmpeg_cmd lib rq 1280 720 duration ! 17 = ''scale=1280:720''"
    by (simp add: ffmpeg_cmd_def str_int_1280 str_int_720)
qed

theorem probe_failures_witness:
  "fst (check_ffmpeg (sample_env na_json_text image_json_text 0 5000) sample_world) = Inr True
   \<and> os_path_exists (files sample_world) (image_path sample_request)
   \<and> os_path_exists (files sample_world) (audio_path sample_request)
   \<and> fst (get_audio_duration sample_lib (sample_env na_json_text image_json_text 0 5000)
           (audio_path sample_request) sample_world) = Inr None
   \<and> fst (create_video sample_lib (sample_env na_json_text image_json_text 0 5000)
           sample_request sample_world) = (False, ''Could not determine audio duration'')
   \<and> fst (get_audio_duration sample_lib (sample_env audio_json_text no_streams_json_text 0 5000)
           (audio_path sample_request) sample_world) = Inr (Some (Fin 12.5))
   \<and> fst (get_image_dimensions sample_lib (sample_env audio_json_text no_streams_json_text 0 5000)
           (image_path sample_request) sample_world) = Inr (None, None)
   \<and> (\<exists>rc. last (events (snd (create_video sample_lib
           (sample_env audio_json_text no_streams_json_text 0 5000) sample_request sample_world))) =
         Run (ffmpeg_cmd sample_lib sample_request 1280 720 (Fin 12.5)) rc)"
proof -
  let ?A = "sample_env na_json_text image_json_text 0 5000"
  let ?B = "sample_env audio_json_text no_streams_json_text 0 5000"
  have cA: "fst (check_ffmpeg ?A sample_world) = Inr True" by (rule sample_check)
  have cB: "fst (check_ffmpeg ?B sample_world) = Inr True" by (rule sample_check)
  have aA: "fst (get_audio_duration sample_lib ?A (audio_path sample_request) sample_world) = Inr None"
    by (simp add: sample_request_def sample_audio_na)
  have aB: "fst (get_audio_duration sample_lib ?B (audio_path sample_request) sample_world)
      = Inr (Some (Fin 12.5))"
    by (simp add: sample_request_def sample_audio)
  have iB: "fst (get_image_dimensions sample_lib ?B (image_path sample_request) sample_world)
      = Inr (None, None)"
    by (simp add: sample_request_def sample_image_none)
  have m: "\<And>e. makedirs ?B (os_path_dirname (output_path sample_request)) (files sample_world) \<noteq> Inl e"
    by (rule sample_makedirs)
  from probe_failures [OF cA sample_exists, where lib = sample_lib] aA
  have "create_video sample_lib ?A sample_request sample_world =
      ((False, ''Could not determine audio duration''),
       add_events sample_world [version_event ?A (files sample_world),
         audio_probe_event ?A sample_request (files sample_world)])"
    by blast
  then have 1: "fst (create_video sample_lib ?A sample_request sample_world)
      = (False, ''Could not determine audio duration'')"
    by (simp only: fst_conv)
  have n: "fst ((None, None) :: int option \<times> int option) = None
      \<or> snd ((None, None) :: int option \<times> int option) = None"
    by simp
  from probe_failures [OF cB sample_exists, where lib = sample_lib and duration = "Fin 12.5"
      and d = "(None, None)"] aB iB n
  have "(\<exists>e. makedirs ?B (os_path_dirname (output_path sample_request)) (files sample_world) = Inl e)
      \<or> (\<exists>rc. last (events (snd (create_video sample_lib ?B sample_request sample_world))) =
         Run (ffmpeg_cmd sample_lib sample_request 1280 720 (Fin 12.5)) rc)"
    by blast
  with m
  have 2: "\<exists>rc. last (events (snd (create_video sample_lib ?B sample_request sample_world))) =
         Run (ffmpeg_cmd sample_lib sample_request 1280 720 (Fin 12.5)) rc"
    by blast
  show ?thesis
    using cA sample_exists aA aB iB 1 2 by (simp only: simp_thms)
qed

subsection \<open>C10: the early failures leave the file system alone\<close>

text \<open>
  C10. Whenever \<open>create_video\<close> returns one of the failure messages of
  lines 106, 110, 113 and 118 (tool missing, input not found, probe failed),
  the file system after the call is the file system before it, the call has
  run nothing but the version check and possibly the audio probe, and so
  neither the encoding command nor a directory creation.
\<close>

theorem early_failures_change_nothing:
  assumes "early_failure rq (snd (fst (create_video lib ev rq w)))"
  shows "files (snd (create_video lib ev rq w)) = files w
       \<and> set (new_events w (snd (create_video lib ev rq w)))
           \<subseteq> {version_event ev (files w), audio_probe_event ev rq (files w)}
       \<and> \<not> list_ex is_transcode (new_events w (snd (create_video lib ev rq w)))
       \<and> \<not> list_ex is_makedirs (new_events w (snd (create_video lib ev rq w)))"
proof -
  from assms obtain b msg where t: "fst (create_video_try lib ev rq w) = Inr (b, msg)"
    and e: "early_failure rq msg"
    unfolding create_video_def using create_video_except_early by blast
  from create_video_try_early [where lib = lib and ev = ev and rq = rq and w = w] t e
  have f: "files (snd (create_video_try lib ev rq w)) = files w"
    and s: "set (new_events w (snd (create_video_try lib ev rq w)))
       \<subseteq> {version_event ev (files w), audio_probe_event ev rq (files w)}"
    by simp_all
  from s have nt: "\<not> list_ex is_transcode (new_events w (snd (create_video_try lib ev rq w)))"
    using not_transcode_version [of ev "files w"] not_transcode_audio [of ev rq "files w"]
    by (auto simp: list_ex_iff)
  from s have nm: "\<not> list_ex is_makedirs (new_events w (snd (create_video_try lib ev rq w)))"
    using not_makedirs_run(1) [of ev "files w"] not_makedirs_run(2) [of ev rq "files w"]
    by (auto simp: list_ex_iff)
  show ?thesis
    unfolding create_video_def create_video_except_snd
    using f s nt nm by simp
qed

theorem early_failures_change_nothing_witness:
  "early_failure sample_request
     (snd (fst (create_video sample_lib (sample_env na_json_text image_json_text 0 5000)
        sample_request sample_world)))
   \<and> files (snd (create_video sample_lib (sample_env na_json_text image_json_text 0 5000)
        sample_request sample_world)) = sample_fs
   \<and> \<not> list_ex is_transcode (new_events sample_world
        (snd (create_video sample_lib (sample_env na_json_text image_json_text 0 5000)
           sample_request sample_world)))
   \<and> \<not> list_ex is_makedirs (new_events sample_world
        (snd (create_video sample_lib (sample_env na_json_text image_json_text 0 5000)
           sample_request sample_world)))"
proof -
  let ?A = "sample_env na_json_text image_json_text 0 5000"
  have "fst (create_video sample_lib ?A sample_request sample_world)
      = (False, ''Could not determine audio duration'')"
    unfolding create_video_def create_video_try_eq
    by (simp add: sample_check sample_exists sample_request_def sample_audio_na
        create_video_except_def os_path_exists_def sample_world_def sample_fs_def)
  then have h: "early_failure sample_request
     (snd (fst (create_video sample_lib ?A sample_request sample_world)))"
    by (simp add: early_failure_def)
  have f: "files sample_world = sample_fs" by (simp add: sample_world_def)
  show ?thesis
    using early_failures_change_nothing [OF h] h by (simp only: f simp_thms)
qed

subsection \<open>C3: what get_audio_duration returns\<close>

text \<open>
  C3, as the code has it. \<open>get_audio_duration\<close> never raises. It returns
  \<^verbatim>\<open>None\<close> when the probe cannot be started or exits with a non-zero code,
  and when its output is not valid JSON. When the output has the expected
  shape, it returns \<^verbatim>\<open>float\<close> of the format-level duration if that field
  is present, otherwise of the first stream-level duration field; it
  returns \<^verbatim>\<open>None\<close> when there is no such field and also when \<^verbatim>\<open>float\<close>
  rejects the value of the field.
\<close>

theorem get_audio_duration_result:
  "(\<exists>r. fst (get_audio_duration lib ev p w) = Inr r)
   \<and> (probe_outcome lib ev (ffprobe_audio_cmd p) (files w) = ProbeFailed \<longrightarrow>
        fst (get_audio_duration lib ev p w) = Inr None)
   \<and> (probe_outcome lib ev (ffprobe_audio_cmd p) (files w) = ProbeMalformed \<longrightarrow>
        fst (get_audio_duration lib ev p w) = Inr None)
   \<and> (probe_outcome lib ev (ffprobe_audio_cmd p) (files w) = ProbeData data \<and> plain_probe data \<longrightarrow>
        fst (get_audio_duration lib ev p w) = Inr (float_or_absent lib (located_duration data)))"
  unfolding get_audio_duration_outcome
  by (auto simp: duration_from_probe_plain)

theorem get_audio_duration_result_witness:
  "probe_outcome sample_lib bare_env (ffprobe_audio_cmd ''uploads/a.mp3'') (files sample_world)
     = ProbeFailed
   \<and> fst (get_audio_duration sample_lib bare_env ''uploads/a.mp3'' sample_world) = Inr None
   \<and> probe_outcome sample_lib (sample_env garbage_text image_json_text 0 5000)
        (ffprobe_audio_cmd ''uploads/a.mp3'') (files sample_world) = ProbeMalformed
   \<and> fst (get_audio_duration sample_lib (sample_env garbage_text image_json_text 0 5000)
        ''uploads/a.mp3'' sample_world) = Inr None
   \<and> probe_outcome sample_lib (sample_env audio_json_text image_json_text 0 5000)
        (ffprobe_audio_cmd ''uploads/a.mp3'') (files sample_world) = ProbeData audio_json
   \<and> plain_probe audio_json
   \<and> fst (get_audio_duration sample_lib (sample_env audio_json_text image_json_text 0 5000)
        ''uploads/a.mp3'' sample_world) = Inr (Some (Fin 12.5))
   \<and> probe_outcome sample_lib (sample_env streams_json_text image_json_text 0 5000)
        (ffprobe_audio_cmd ''uploads/a.mp3'') (files sample_world) = ProbeData streams_json
   \<and> plain_probe streams_json
   \<and> fst (get_audio_duration sample_lib (sample_env streams_json_text image_json_text 0 5000)
        ''uploads/a.mp3'' sample_world) = Inr (Some (Fin 12.5))"
proof -
  let ?p = "''uploads/a.mp3''"
  have o1: "probe_outcome sample_lib bare_env (ffprobe_audio_cmd ?p) (files sample_world) = ProbeFailed"
    by (rule bare_outcome)
  have o2: "probe_outcome sample_lib (sample_env garbage_text image_json_text 0 5000)
        (ffprobe_audio_cmd ?p) (files sample_world) = ProbeMalformed"
    by (simp add: sample_audio_outcome sample_loads)
  have o3: "probe_outcome sample_lib (sample_env audio_json_text image_json_text 0 5000)
        (ffprobe_audio_cmd ?p) (files sample_world) = ProbeData audio_json"
    by (simp add: sample_audio_outcome sample_loads)
  have o4: "probe_outcome sample_lib (sample_env streams_json_text image_json_text 0 5000)
        (ffprobe_audio_cmd ?p) (files sample_world) = ProbeData streams_json"
    by (simp add: sample_audio_outcome sample_loads)
  have r1: "fst (get_audio_duration sample_lib bare_env ?p sample_world) = Inr None"
    using get_audio_duration_result [where lib = sample_lib and ev = bare_env and p = ?p
        and w = sample_world] o1
    by blast
  have r2: "fst (get_audio_duration sample_lib (sample_env garbage_text image_json_text 0 5000)
        ?p sample_world) = Inr None"
    using get_audio_duration_result [where lib = sample_lib
        and ev = "sample_env garbage_text image_json_text 0 5000" and p = ?p
        and w = sample_world] o2
    by blast
  have "fst (get_audio_duration sample_lib (sample_env audio_json_text image_json_text 0 5000)
        ?p sample_world) = Inr (float_or_absent sample_lib (located_duration audio_json))"
    using get_audio_duration_result [where lib = sample_lib
        and ev = "sample_env audio_json_text image_json_text 0 5000" and p = ?p
        and w = sample_world and data = audio_json] o3 sample_plain(1)
    by blast
  then have r3: "fst (get_audio_duration sample_lib (sample_env audio_json_text image_json_text 0 5000)
        ?p sample_world) = Inr (Some (Fin 12.5))"
    by (simp only: sample_located)
  have "fst (get_audio_duration sample_lib (sample_env streams_json_text image_json_text 0 5000)
        ?p sample_world) = Inr (float_or_absent sample_lib (located_duration streams_json))"
    using get_audio_duration_result [where lib = sample_lib
        and ev = "sample_env streams_json_text image_json_text 0 5000" and p = ?p
        and w = sample_world and data = streams_json] o4 sample_plain(2)
    by blast
  then have r4: "fst (get_audio_duration sample_lib (sample_env streams_json_text image_json_text 0 5000)
        ?p sample_world) = Inr (Some (Fin 12.5))"
    by (simp only: sample_located)
  show ?thesis
    using o1 o2 o3 o4 r1 r2 r3 r4 sample_plain(1) sample_plain(2) by (simp only: simp_thms)
qed

text \<open>
  The claim as stated fails: with the output
  \<^verbatim>\<open>{"format": {"duration": "N/A"}}\<close> the probe exits with 0, the output is
  valid JSON and a format-level duration field is present, yet the result is
  \<^verbatim>\<open>None\<close>, because \<^verbatim>\<open>float("N/A")\<close> raises ValueError and line 52 catches it.
\<close>

theorem format_duration_unreadable_counterexample:
  "probe_outcome sample_lib (sample_env na_json_text image_json_text 0 5000)
     (ffprobe_audio_cmd ''uploads/a.mp3'') (files sample_world) = ProbeData na_json
   \<and> located_duration na_json = Some (JStr ''N/A'')
   \<and> fst (get_audio_duration sample_lib (sample_env na_json_text image_json_text 0 5000)
        ''uploads/a.mp3'' sample_world) = Inr None"
  by (simp add: sample_audio_outcome sample_loads sample_located sample_audio_na)

subsection \<open>C8: a returned duration need not be positive\<close>

text \<open>
  C8, as the code has it. Every duration \<open>get_audio_duration\<close> returns is
  the value \<^verbatim>\<open>float\<close> gives for a \<^verbatim>\<open>duration\<close> field of the decoded probe
  output, read from the format object or from an element of the streams.
  Nothing compares it with 0.
\<close>

theorem audio_duration_is_float_of_field:
  assumes "fst (get_audio_duration lib ev p w) = Inr (Some d)"
  shows "\<exists>data obj v.
           probe_outcome lib ev (ffprobe_audio_cmd p) (files w) = ProbeData data
           \<and> duration_holder data obj
           \<and> py_getitem obj ''duration'' = Inr v
           \<and> py_float lib v = Inr d"
proof -
  from assms obtain data where o: "probe_outcome lib ev (ffprobe_audio_cmd p) (files w) = ProbeData data"
    and a: "absent_on_raise (duration_from_probe lib data) = Some d"
    unfolding get_audio_duration_outcome
    by (cases "probe_outcome lib ev (ffprobe_audio_cmd p) (files w)") simp_all
  from a have "duration_from_probe lib data = Inr (Some d)"
    by (cases "duration_from_probe lib data") (simp_all add: absent_on_raise_def)
  from duration_from_probe_Some [OF this] o show ?thesis by blast
qed

theorem audio_duration_is_float_of_field_witness:
  "fst (get_audio_duration sample_lib (sample_env audio_json_text image_json_text 0 5000)
        ''uploads/a.mp3'' sample_world) = Inr (Some (Fin 12.5))
   \<and> (\<exists>data obj v.
         probe_outcome sample_lib (sample_env audio_json_text image_json_text 0 5000)
           (ffprobe_audio_cmd ''uploads/a.mp3'') (files sample_world) = ProbeData data
         \<and> duration_holder data obj
         \<and> py_getitem obj ''duration'' = Inr v
         \<and> py_float sample_lib v = Inr (Fin 12.5))"
proof -
  have h: "fst (get_audio_duration sample_lib (sample_env audio_json_text image_json_text 0 5000)
        ''uploads/a.mp3'' sample_world) = Inr (Some (Fin 12.5))"
    by (rule sample_audio)
  show ?thesis
    using audio_duration_is_float_of_field [OF h] h by (simp only: simp_thms)
qed

text \<open>
  The claim as stated fails: with the output
  \<^verbatim>\<open>{"format": {"duration": "0.000000"}}\<close> the result is the float 0.0, which
  is not greater than 0.
\<close>

theorem zero_duration_counterexample:
  "fst (get_audio_duration sample_lib (sample_env zero_json_text image_json_text 0 5000)
        ''uploads/a.mp3'' sample_world) = Inr (Some (Fin 0))
   \<and> \<not> float_pos (Fin 0)"
  by (simp add: sample_audio_zero)

subsection \<open>C4: what get_image_dimensions returns\<close>

text \<open>
  C4, as the code has it. \<open>get_image_dimensions\<close> never raises. It returns
  \<^verbatim>\<open>(None, None)\<close> when the probe cannot be started or exits with a non-zero
  code, and when its output is not valid JSON. When the output has the
  expected shape, it returns the width and height of the first stream
  whose codec type is \<^verbatim>\<open>video\<close> and whose width and height are both
  positive, and \<^verbatim>\<open>(None, None)\<close> when there is no such stream.
\<close>

theorem get_image_dimensions_result:
  "(\<exists>r. fst (get_image_dimensions lib ev p w) = Inr r)
   \<and> (probe_outcome lib ev (ffprobe_image_cmd p) (files w) = ProbeFailed \<longrightarrow>
        fst (get_image_dimensions lib ev p w) = Inr (None, None))
   \<and> (probe_outcome lib ev (ffprobe_image_cmd p) (files w) = ProbeMalformed \<longrightarrow>
        fst (get_image_dimensions lib ev p w) = Inr (None, None))
   \<and> (probe_outcome lib ev (ffprobe_image_cmd p) (files w) = ProbeData data
        \<and> plain_image_probe data \<longrightarrow>
        fst (get_image_dimensions lib ev p w) =
          Inr (dimensions_of (find reports_dimensions (streams_of data))))"
  unfolding get_image_dimensions_outcome
  by (auto simp: dimensions_from_probe_plain)

theorem get_image_dimensions_result_witness:
  "probe_outcome sample_lib bare_env (ffprobe_image_cmd ''uploads/a.png'') (files sample_world)
     = ProbeFailed
   \<and> fst (get_image_dimensions sample_lib bare_env ''uploads/a.png'' sample_world)
       = Inr (None, None)
   \<and> probe_outcome sample_lib (sample_env audio_json_text garbage_text 0 5000)
        (ffprobe_image_cmd ''uploads/a.png'') (files sample_world) = ProbeMalformed
   \<and> fst (get_image_dimensions sample_lib (sample_env audio_json_text garbage_text 0 5000)
        ''uploads/a.png'' sample_world) = Inr (None, None)
   \<and> probe_outcome sample_lib (sample_env audio_json_text image_json_text 0 5000)
        (ffprobe_image_cmd ''uploads/a.png'') (files sample_world) = ProbeData image_json
   \<and> plain_image_probe image_json
   \<and> fst (get_image_dimensions sample_lib (sample_env audio_json_text image_json_text 0 5000)
        ''uploads/a.png'' sample_world) = Inr (Some 1281, Some 721)
   \<and> probe_outcome sample_lib (sample_env audio_json_text no_streams_json_text 0 5000)
        (ffprobe_image_cmd ''uploads/a.png'') (files sample_world) = ProbeData no_streams_json
   \<and> plain_image_probe no_streams_json
   \<and> fst (get_image_dimensions sample_lib (sample_env audio_json_text no_streams_json_text 0 5000)
        ''uploads/a.png'' sample_world) = Inr (None, None)"
proof -
  let ?p = "''uploads/a.png''"
  have o1: "probe_outcome sample_lib bare_env (ffprobe_image_cmd ?p) (files sample_world) = ProbeFailed"
    by (rule bare_outcome)
  have o2: "probe_outcome sample_lib (sample_env audio_json_text garbage_text 0 5000)
        (ffprobe_image_cmd ?p) (files sample_world) = ProbeMalformed"
    by (simp add: sample_image_outcome sample_loads)
  have o3: "probe_outcome sample_lib (sample_env audio_json_text image_json_text 0 5000)
        (ffprobe_image_cmd ?p) (files sample_world) = ProbeData image_json"
    by (simp add: sample_image_outcome sample_loads)
  have o4: "probe_outcome sample_lib (sample_env audio_json_text no_streams_json_text 0 5000)
        (ffprobe_image_cmd ?p) (files sample_world) = ProbeData no_streams_json"
    by (simp add: sample_image_outcome sample_loads)
  have r1: "fst (get_image_dimensions sample_lib bare_env ?p sample_world) = Inr (None, None)"
    using get_image_dimensions_result [where lib = sample_lib and ev = bare_env and p = ?p
        and w = sample_world] o1
    by blast
  have r2: "fst (get_image_dimensions sample_lib (sample_env audio_json_text garbage_text 0 5000)
        ?p sample_world) = Inr (None, None)"
    using get_image_dimensions_result [where lib = sample_lib
        and ev = "sample_env audio_json_text garbage_text 0 5000" and p = ?p
        and w = sample_world] o2
    by blast
  have "fst (get_image_dimensions sample_lib (sample_env audio_json_text image_json_text 0 5000)
        ?p sample_world) = Inr (dimensions_of (find reports_dimensions (streams_of image_json)))"
    using get_image_dimensions_result [where lib = sample_lib
        and ev = "sample_env audio_json_text image_json_text 0 5000" and p = ?p
        and w = sample_world and data = image_json] o3 sample_plain_image(1)
    by blast
  then have r3: "fst (get_image_dimensions sample_lib
        (sample_env audio_json_text image_json_text 0 5000) ?p sample_world)
        = Inr (Some 1281, Some 721)"
    by (simp only: sample_found)
  have "fst (get_image_dimensions sample_lib (sample_env audio_json_text no_streams_json_text 0 5000)
        ?p sample_world) = Inr (dimensions_of (find reports_dimensions (streams_of no_streams_json)))"
    using get_image_dimensions_result [where lib = sample_lib
        and ev = "sample_env audio_json_text no_streams_json_text 0 5000" and p = ?p
        and w = sample_world and data = no_streams_json] o4 sample_plain_image(3)
    by blast
  then have r4: "fst (get_image_dimensions sample_lib
        (sample_env audio_json_text no_streams_json_text 0 5000) ?p sample_world)
        = Inr (None, None)"
    by (simp only: sample_found)
  show ?thesis
    using o1 o2 o3 o4 r1 r2 r3 r4 sample_plain_image(1) sample_plain_image(3)
    by (simp only: simp_thms)
qed

text \<open>
  The claim as stated fails: when the first video stream carries no width
  and height and a second video stream reports 640 by 480, the result is
  (640, 480), read from the second stream and not from the first stream
  whose codec type is \<^verbatim>\<open>video\<close>. The test of line 73 sits inside the loop, so
  a video stream without positive dimensions is passed over.
\<close>

theorem second_video_stream_counterexample:
  "probe_outcome sample_lib (sample_env audio_json_text two_video_json_text 0 5000)
     (ffprobe_image_cmd ''uploads/a.png'') (files sample_world) = ProbeData two_video_json
   \<and> find is_video (streams_of two_video_json) = Some (JObj [(''codec_type'', JStr ''video'')])
   \<and> dimensions_of (find is_video (streams_of two_video_json)) = (Some 0, Some 0)
   \<and> fst (get_image_dimensions sample_lib (sample_env audio_json_text two_video_json_text 0 5000)
        ''uploads/a.png'' sample_world) = Inr (Some 640, Some 480)"
  by (simp add: sample_image_outcome sample_loads sample_image_two)
     (simp add: streams_of_def field_def two_video_json_def is_video_def dimensions_of_def
        int_field_def)

subsection \<open>C9: what the sweep deletes\<close>

text \<open>
  C9, as the code has it. Let the names in each folder be distinct, as they
  are in a directory. \<open>cleanup_files\<close>, whose threshold is 3600 seconds,
  deletes nothing but stale entries: every entry named \<^verbatim>\<open>.gitkeep\<close> and
  every entry to which \<^verbatim>\<open>os.path.getctime\<close> does not give a time older than
  the current time minus 3600 is still there afterwards, whatever happens.
  When every call the sweep makes succeeds (\<^verbatim>\<open>os.path.getctime\<close> on each
  entry but the placeholder, \<^verbatim>\<open>os.remove\<close> on each stale entry), it deletes
  exactly the stale entries of both folders and reports success.
\<close>

theorem cleanup_files_sweeps:
  assumes "distinct (map name (upload_folder st))"
    and "distinct (map name (output_folder st))"
  shows "(\<forall>e \<in> set (upload_folder st).
            \<not> stale now 3600 e \<longrightarrow> e \<in> set (upload_folder (snd (cleanup_files lib now st))))
       \<and> (\<forall>e \<in> set (output_folder st).
            \<not> stale now 3600 e \<longrightarrow> e \<in> set (output_folder (snd (cleanup_files lib now st))))
       \<and> set (upload_folder (snd (cleanup_files lib now st))) \<subseteq> set (upload_folder st)
       \<and> set (output_folder (snd (cleanup_files lib now st))) \<subseteq> set (output_folder st)
       \<and> (sweepable now (upload_folder st) \<and> sweepable now (output_folder st) \<longrightarrow>
            cleanup_files lib now st =
              ((''success'', ''Cleanup completed''),
               \<lparr>upload_folder = swept now (upload_folder st),
                output_folder = swept now (output_folder st)\<rparr>))"
proof -
  let ?u = "upload_folder st" and ?o = "output_folder st"
  note su = cleanup_loop_safe [OF assms(1), of now 3600 "os_listdir ?u"]
  note so = cleanup_loop_safe [OF assms(2), of now 3600 "os_listdir ?o"]
  have 1: "\<forall>e \<in> set ?u. \<not> stale now 3600 e \<longrightarrow> e \<in> set (upload_folder (snd (cleanup_files lib now st)))"
    unfolding cleanup_files_upload using su by blast
  have 3: "set (upload_folder (snd (cleanup_files lib now st))) \<subseteq> set ?u"
    unfolding cleanup_files_upload using su by blast
  have 2: "\<forall>e \<in> set ?o. \<not> stale now 3600 e \<longrightarrow> e \<in> set (output_folder (snd (cleanup_files lib now st)))"
    unfolding cleanup_files_output using so
    by (cases "fst (cleanup_loop now 3600 (os_listdir ?u) ?u)") auto
  have 4: "set (output_folder (snd (cleanup_files lib now st))) \<subseteq> set ?o"
    unfolding cleanup_files_output using so
    by (cases "fst (cleanup_loop now 3600 (os_listdir ?u) ?u)") auto
  have 5: "sweepable now ?u \<and> sweepable now ?o \<longrightarrow>
      cleanup_files lib now st =
        ((''success'', ''Cleanup completed''),
         \<lparr>upload_folder = swept now ?u, output_folder = swept now ?o\<rparr>)"
  proof
    assume n: "sweepable now ?u \<and> sweepable now ?o"
    from n assms have "cleanup_loop now 3600 (os_listdir ?u) ?u = (Inr (), swept now ?u)"
      and "cleanup_loop now 3600 (os_listdir ?o) ?o = (Inr (), swept now ?o)"
      by (simp_all add: cleanup_loop_listdir)
    then show "cleanup_files lib now st =
        ((''success'', ''Cleanup completed''),
         \<lparr>upload_folder = swept now ?u, output_folder = swept now ?o\<rparr>)"
      by (simp add: cleanup_files_def)
  qed
  from 1 2 3 4 5 show ?thesis by blast
qed

theorem cleanup_files_sweeps_witness:
  "distinct (map name (upload_folder tidy_store))
   \<and> distinct (map name (output_folder tidy_store))
   \<and> sweepable 10000 (upload_folder tidy_store)
   \<and> sweepable 10000 (output_folder tidy_store)
   \<and> cleanup_files sample_lib 10000 tidy_store =
       ((''success'', ''Cleanup completed''),
        \<lparr>upload_folder = [gitkeep, new_mp3], output_folder = [gitkeep]\<rparr>)"
proof -
  from cleanup_files_sweeps [OF tidy_facts(1) tidy_facts(2), where now = 10000 and lib = sample_lib]
    tidy_facts(3) tidy_facts(4)
  have "cleanup_files sample_lib 10000 tidy_store =
      ((''success'', ''Cleanup completed''),
       \<lparr>upload_folder = swept 10000 (upload_folder tidy_store),
        output_folder = swept 10000 (output_folder tidy_store)\<rparr>)"
    by blast
  then have "cleanup_files sample_lib 10000 tidy_store =
       ((''success'', ''Cleanup completed''),
        \<lparr>upload_folder = [gitkeep, new_mp3], output_folder = [gitkeep]\<rparr>)"
    by (simp only: tidy_facts)
  with tidy_facts(1-4) show ?thesis by (simp only: simp_thms)
qed

text \<open>
  The claim as stated fails when a call of the sweep raises. On a stale
  directory \<^verbatim>\<open>os.remove\<close> raises (line 169); on a symbolic link whose target
  is missing \<^verbatim>\<open>os.path.getctime\<close> raises (line 168). Either way the handler of
  lines 183-185 ends the sweep with an error response, and the stale files
  listed after that entry, as well as those of the output folder, stay.
\<close>

theorem sweep_stops_counterexample:
  "fst (fst (cleanup_files sample_lib 10000 cluttered_store)) = ''error''
   \<and> snd (cleanup_files sample_lib 10000 cluttered_store) = cluttered_store
   \<and> fst (fst (cleanup_files sample_lib 10000 linked_store)) = ''error''
   \<and> snd (cleanup_files sample_lib 10000 linked_store) = linked_store
   \<and> stale 10000 3600 old_png
   \<and> old_png \<in> set (upload_folder cluttered_store)
   \<and> old_png \<in> set (upload_folder linked_store)
   \<and> stale 10000 3600 old_video
   \<and> old_video \<in> set (output_folder cluttered_store)
   \<and> old_video \<in> set (output_folder linked_store)"
  by (simp add: cleanup_files_def cluttered_store_def linked_store_def os_listdir_def
      os_path_getctime_def os_remove_def old_dir_def dangling_link_def old_png_def
      old_video_def stale_def)

end
